theory Spec2Isabelle
  imports Complex_Main "HOL-Library.Char_ord" "HOL-Library.List_Lexorder"
begin

section \<open>Vital-sign store and summary engine (app.py)\<close>

text \<open>
  Numbers. Python's \<open>int\<close> and \<open>float\<close> values that take part in the summary
  arithmetic are modelled by \<open>real\<close>: binary64 rounding, overflow to infinity and NaN
  are not part of the model, every operation is exact. Absent values (\<open>None\<close>, SQL
  \<open>NULL\<close>) are \<open>None\<close> of an option type.

  Texts are lists of bytes. The texts this development looks into (dates, times,
  numbers) are ASCII, where a byte is a character of Python's \<open>str\<close>. Calendar days
  are day numbers; the days of the years 1 to 9999, where Python's date arithmetic is
  defined, are the ones meant.
\<close>

subsection \<open>Utility functions\<close>

text \<open>\<^verbatim>\<open>[x for x in xs if x is not None]\<close>\<close>

definition not_none :: "'a option list \<Rightarrow> 'a list" where
  "not_none xs = map the (filter (\<lambda>x. x \<noteq> None) xs)"

text \<open>\<^verbatim>\<open>next((v for v in vals if v is not None), None)\<close>\<close>

fun next_not_none :: "'a option list \<Rightarrow> 'a option" where
  "next_not_none [] = None"
| "next_not_none (v # vs) = (case v of None \<Rightarrow> next_not_none vs | Some x \<Rightarrow> Some x)"

text \<open>
  \<^verbatim>\<open>
  def mean(xs):
      xs = [x for x in xs if x is not None]
      return sum(xs)/len(xs) if xs else None
  \<close>
\<close>

definition mean :: "real option list \<Rightarrow> real option" where
  "mean xs = (let ys = not_none xs in
     if ys \<noteq> [] then Some (sum_list ys / real (length ys)) else None)"

text \<open>
  \<^verbatim>\<open>
  def pct_change(old, new):
      try:
          if old is None or old == 0:
              return None
          return (new - old) / abs(old) * 100.0
      except Exception:
          return None
  \<close>
  With \<open>new\<close> absent the subtraction raises \<open>TypeError\<close>, which the handler turns
  into \<open>None\<close>.
\<close>

definition pct_change :: "real option \<Rightarrow> real option \<Rightarrow> real option" where
  "pct_change old new =
     (case old of
        None \<Rightarrow> None
      | Some a \<Rightarrow>
          if a = 0 then None
          else (case new of
                  None \<Rightarrow> None
                | Some b \<Rightarrow> Some ((b - a) / \<bar>a\<bar> * 100)))"

text \<open>
  \<^verbatim>\<open>
  def simple_trend(values):
      vals = [v for v in values if v is not None]
      if len(vals) < 2:
          return None
      n = len(values)
      xs = list(range(n))
      ys = [v if v is not None else 0 for v in values]
      x_mean = sum(xs)/n
      y_mean = sum(ys)/n
      num = sum((xs[i]-x_mean)*(ys[i]-y_mean) for i in range(n))
      den = sum((xs[i]-x_mean)**2 for i in range(n))
      if den == 0:
          return 0
      slope = num/den
      return slope
  \<close>
\<close>

definition zero_filled :: "real option list \<Rightarrow> real list" where
  "zero_filled values = map (\<lambda>v. case v of None \<Rightarrow> 0 | Some x \<Rightarrow> x) values"

definition simple_trend :: "real option list \<Rightarrow> real option" where
  "simple_trend values =
     (let vals = not_none values in
      if length vals < 2 then None
      else
        let n = length values;
            xs = map real [0..<n];
            ys = zero_filled values;
            x_mean = sum_list xs / real n;
            y_mean = sum_list ys / real n;
            num = sum_list (map (\<lambda>i. (xs ! i - x_mean) * (ys ! i - y_mean)) [0..<n]);
            den = sum_list (map (\<lambda>i. (xs ! i - x_mean)\<^sup>2) [0..<n])
        in if den = 0 then Some 0 else Some (num / den))"

subsection \<open>Stored measurements\<close>

text \<open>
  A row of the table \<open>measurements\<close>, as \<open>row_to_dict\<close> hands it to the code. The list
  of rows of a store is kept in insertion (rowid) order.
\<close>

record measurement =
  row_id :: nat
  measured_at :: string
  resting_hr :: "int option"
  hrv :: "real option"
  respiratory_rate :: "real option"
  body_temp :: "real option"
  spo2 :: "real option"
  notes_text :: "string option"
  created_at :: string

datatype metric = Resting_hr | Hrv | Respiratory_rate | Body_temp | Spo2

text \<open>\<^verbatim>\<open>it.get(key)\<close> for the five metric keys; an integer heart rate is read as a number.\<close>

fun get_metric :: "measurement \<Rightarrow> metric \<Rightarrow> real option" where
  "get_metric it Resting_hr = map_option real_of_int (resting_hr it)"
| "get_metric it Hrv = hrv it"
| "get_metric it Respiratory_rate = respiratory_rate it"
| "get_metric it Body_temp = body_temp it"
| "get_metric it Spo2 = spo2 it"

text \<open>
  The services of the platform the code calls, taken as parameters:
  \<^item> \<open>sql_date\<close>: SQLite's \<open>date(measured_at)\<close>, \<open>None\<close> for SQL \<open>NULL\<close>;
  \<^item> \<open>isoformat\<close>: \<open>date.isoformat()\<close> of the calendar day with a given day number;
  \<^item> \<open>str_num\<close>: the text an f-string gives for a number;
  \<^item> \<open>round1\<close>: \<open>round(x, 1)\<close>.
\<close>

record platform =
  sql_date :: "string \<Rightarrow> string option"
  isoformat :: "int \<Rightarrow> string"
  str_num :: "real \<Rightarrow> string"
  round1 :: "real \<Rightarrow> real"

text \<open>
  \<^verbatim>\<open>SELECT * FROM measurements WHERE date(measured_at) >= ? ORDER BY measured_at ASC\<close>
  and its variants. The comparison is SQLite's comparison of text values (byte order),
  a \<open>NULL\<close> date satisfies no comparison. \<open>ORDER BY\<close> is modelled as a stable sort of
  the rows in rowid order.
\<close>

definition select_since :: "platform \<Rightarrow> measurement list \<Rightarrow> string \<Rightarrow> measurement list" where
  "select_since pf db since =
     sort_key measured_at
       (filter (\<lambda>r. case sql_date pf (measured_at r) of None \<Rightarrow> False | Some d \<Rightarrow> since \<le> d) db)"

definition select_between ::
  "platform \<Rightarrow> measurement list \<Rightarrow> string \<Rightarrow> string \<Rightarrow> measurement list" where
  "select_between pf db since until =
     sort_key measured_at
       (filter (\<lambda>r. case sql_date pf (measured_at r) of
                       None \<Rightarrow> False
                     | Some d \<Rightarrow> since \<le> d \<and> d \<le> until) db)"

definition select_all :: "measurement list \<Rightarrow> measurement list" where
  "select_all db = sort_key measured_at db"

subsection \<open>compute_summary\<close>

record metric_stats =
  first_val :: "real option"
  last_val :: "real option"
  avg :: "real option"
  change_pct :: "real option"
  slope :: "real option"

record summary =
  days :: int
  dates :: "string list"
  series :: "metric \<Rightarrow> real option list"
  stats :: "metric \<Rightarrow> metric_stats"
  anomalies :: "string list"

text \<open>
  \<^verbatim>\<open>
  by_day = {}
  for it in items:
      d = it["measured_at"][:10]
      by_day[d] = it  # keep last entry for a day (assumes ordered)
  \<close>
\<close>

definition day_key :: "measurement \<Rightarrow> string" where
  "day_key it = take 10 (measured_at it)"

definition build_by_day :: "measurement list \<Rightarrow> (string \<rightharpoonup> measurement)" where
  "build_by_day items = fold (\<lambda>it by_day. by_day(day_key it \<mapsto> it)) items Map.empty"

text \<open>
  \<^verbatim>\<open>
  for i in range(days):
      d = (datetime.utcnow().date() - timedelta(days=days-1-i)).isoformat()
      days_list.append(d)
  \<close>
  \<open>today\<close> is the day number of \<open>datetime.utcnow().date()\<close>, read once.
\<close>

definition days_list :: "platform \<Rightarrow> int \<Rightarrow> int \<Rightarrow> string list" where
  "days_list pf today n = map (\<lambda>i. isoformat pf (today - (n - 1 - int i))) [0..<nat n]"

text \<open>
  The loop filling \<open>series\<close>: one slot per day and metric, \<open>None\<close> where the day
  has no entry in \<open>by_day\<close>.
\<close>

definition series_of ::
  "(string \<rightharpoonup> measurement) \<Rightarrow> string list \<Rightarrow> metric \<Rightarrow> real option list" where
  "series_of by_day ds key =
     map (\<lambda>d. case by_day d of None \<Rightarrow> None | Some it \<Rightarrow> get_metric it key) ds"

text \<open>
  \<^verbatim>\<open>
  last = next((v for v in reversed(vals) if v is not None), None)
  avg = mean([v for v in vals if v is not None])
  first = next((v for v in vals if v is not None), None)
  change_pct = pct_change(first, last) if first is not None and last is not None else None
  slope = simple_trend(vals)
  \<close>
\<close>

definition compute_stats :: "real option list \<Rightarrow> metric_stats" where
  "compute_stats vals =
     (let lst = next_not_none (rev vals);
          av = mean (filter (\<lambda>v. v \<noteq> None) vals);
          fst_v = next_not_none vals;
          cp = (if fst_v \<noteq> None \<and> lst \<noteq> None then pct_change fst_v lst else None);
          sl = simple_trend vals
      in \<lparr>first_val = fst_v, last_val = lst, avg = av, change_pct = cp, slope = sl\<rparr>)"

text \<open>
  \<^verbatim>\<open>
  for idx, d in enumerate(series["date"]):
      t = series["body_temp"][idx]
      if t is not None and t >= 38.0:
          anomalies.append(f"{d}: high temp {t}\u00b0C")
      s = series["spo2"][idx]
      if s is not None and s < 94:
          anomalies.append(f"{d}: low SpO\u2082 {s}%")
  \<close>
  The two non-ASCII characters of the messages are written as their UTF-8 bytes. The
  series lists are as long as the list of dates, so the indexing is in range.
\<close>

definition degree_sign :: string where
  "degree_sign = [CHR 0xC2, CHR 0xB0]"

definition subscript_two :: string where
  "subscript_two = [CHR 0xE2, CHR 0x82, CHR 0x82]"

definition high_temp_msg :: "platform \<Rightarrow> string \<Rightarrow> real \<Rightarrow> string" where
  "high_temp_msg pf d t = d @ '': high temp '' @ str_num pf t @ degree_sign @ ''C''"

definition low_spo2_msg :: "platform \<Rightarrow> string \<Rightarrow> real \<Rightarrow> string" where
  "low_spo2_msg pf d s = d @ '': low SpO'' @ subscript_two @ '' '' @ str_num pf s @ ''%''"

definition anomaly_step ::
  "platform \<Rightarrow> real option list \<Rightarrow> real option list \<Rightarrow> nat \<times> string \<Rightarrow> string list \<Rightarrow> string list" where
  "anomaly_step pf temps sats = (\<lambda>(idx, d) anoms.
     (let t = temps ! idx;
          anoms1 = (if t \<noteq> None \<and> the t \<ge> 38 then anoms @ [high_temp_msg pf d (the t)] else anoms);
          s = sats ! idx;
          anoms2 = (if s \<noteq> None \<and> the s < 94 then anoms1 @ [low_spo2_msg pf d (the s)] else anoms1)
      in anoms2))"

definition find_anomalies ::
  "platform \<Rightarrow> string list \<Rightarrow> real option list \<Rightarrow> real option list \<Rightarrow> string list" where
  "find_anomalies pf ds temps sats = fold (anomaly_step pf temps sats) (enumerate 0 ds) []"

definition compute_summary :: "platform \<Rightarrow> measurement list \<Rightarrow> int \<Rightarrow> int \<Rightarrow> summary" where
  "compute_summary pf db today n =
     (let cutoff = isoformat pf (today - (n - 1));
          items = select_since pf db cutoff;
          by_day = build_by_day items;
          ds = days_list pf today n;
          ser = series_of by_day ds
      in \<lparr>days = n, dates = ds, series = ser,
          stats = (\<lambda>key. compute_stats (ser key)),
          anomalies = find_anomalies pf ds (ser Body_temp) (ser Spo2)\<rparr>)"

subsection \<open>get_insights: the deterministic narrative\<close>

text \<open>\<^verbatim>\<open>sep.join(parts)\<close>\<close>

fun join :: "string \<Rightarrow> string list \<Rightarrow> string" where
  "join sep [] = []"
| "join sep [p] = p"
| "join sep (p # q # ps) = p @ sep @ join sep (q # ps)"

definition direction :: "real \<Rightarrow> string" where
  "direction cp = (if cp > 0 then ''increased'' else ''decreased'')"

text \<open>
  \<^verbatim>\<open>
  r = stats["resting_hr"]
  if r["first"] is not None and r["last"] is not None:
      if r["change_pct"] is not None and abs(r["change_pct"]) >= 3:
          direction = "increased" if r["change_pct"] > 0 else "decreased"
          parts.append(f"Resting HR {direction} by {round(r['change_pct'],1)}% (avg {round(r['avg'],1)} bpm).")
  \<close>
  and the same for HRV with the threshold 6 and the unit ms. \<open>round\<close> of an absent
  average would raise; the sentence is then not produced, the request fails.
\<close>

definition change_sentence ::
  "platform \<Rightarrow> string \<Rightarrow> string \<Rightarrow> real \<Rightarrow> real \<Rightarrow> string" where
  "change_sentence pf label unit cp av =
     label @ '' '' @ direction cp @ '' by '' @ str_num pf (round1 pf cp) @ ''% (avg ''
       @ str_num pf (round1 pf av) @ '' '' @ unit @ '').''"

datatype error = ValueError | TypeError | OverflowError

definition metric_part ::
  "platform \<Rightarrow> string \<Rightarrow> string \<Rightarrow> real \<Rightarrow> metric_stats \<Rightarrow> error + string list" where
  "metric_part pf label unit threshold r =
     (if first_val r \<noteq> None \<and> last_val r \<noteq> None then
        (if change_pct r \<noteq> None \<and> \<bar>the (change_pct r)\<bar> \<ge> threshold then
           (case avg r of
              None \<Rightarrow> Inl TypeError
            | Some av \<Rightarrow> Inr [change_sentence pf label unit (the (change_pct r)) av])
         else Inr [])
      else Inr [])"

definition insight_parts :: "platform \<Rightarrow> summary \<Rightarrow> error + string list" where
  "insight_parts pf sm =
     (case metric_part pf ''Resting HR'' ''bpm'' 3 (stats sm Resting_hr) of
        Inl e \<Rightarrow> Inl e
      | Inr p1 \<Rightarrow>
          (case metric_part pf ''HRV'' ''ms'' 6 (stats sm Hrv) of
             Inl e \<Rightarrow> Inl e
           | Inr p2 \<Rightarrow>
               Inr (p1 @ p2 @
                 (if anomalies sm \<noteq> [] then [''Anomalies: '' @ join ''; '' (anomalies sm)] else []))))"

definition no_notable_changes :: string where
  "no_notable_changes = ''No notable changes detected in the last period.''"

definition deterministic_insight :: "platform \<Rightarrow> summary \<Rightarrow> error + string" where
  "deterministic_insight pf sm =
     (case insight_parts pf sm of
        Inl e \<Rightarrow> Inl e
      | Inr parts \<Rightarrow> Inr (if parts \<noteq> [] then join '' '' parts else no_notable_changes))"

subsection \<open>list_measurements\<close>

text \<open>
  \<^verbatim>\<open>
  since = request.args.get("since")  # YYYY-MM-DD
  until = request.args.get("until")
  if since and until:
      cur.execute("SELECT ... WHERE date(measured_at) BETWEEN ? AND ? ORDER BY measured_at ASC", (since, until))
  elif since:
      cur.execute("SELECT ... WHERE date(measured_at) >= ? ORDER BY measured_at ASC", (since,))
  else:
      cur.execute("SELECT * FROM measurements ORDER BY measured_at ASC")
  \<close>
  A query argument is absent (\<open>None\<close>) or a text; the empty text is false in a
  condition, like \<open>None\<close>. The result is the response: \<open>Inr\<close> the rows of a
  successful answer, \<open>Inl\<close> a rejected request.
\<close>

definition is_given :: "string option \<Rightarrow> bool" where
  "is_given arg = (case arg of None \<Rightarrow> False | Some s \<Rightarrow> s \<noteq> [])"

definition list_measurements ::
  "platform \<Rightarrow> measurement list \<Rightarrow> string option \<Rightarrow> string option \<Rightarrow> error + measurement list" where
  "list_measurements pf db since until =
     (if is_given since \<and> is_given until then Inr (select_between pf db (the since) (the until))
      else if is_given since then Inr (select_since pf db (the since))
      else Inr (select_all db))"

text \<open>
  The list operation as the specification words it: the records whose date lies in
  \<open>[since, until]\<close>, a missing bound imposing no constraint on its side, in ascending
  order of \<open>measured_at\<close>.
\<close>

definition within_bounds :: "platform \<Rightarrow> string option \<Rightarrow> string option \<Rightarrow> measurement \<Rightarrow> bool" where
  "within_bounds pf since until r =
     ((case since of
         None \<Rightarrow> True
       | Some lo \<Rightarrow> (case sql_date pf (measured_at r) of None \<Rightarrow> False | Some d \<Rightarrow> lo \<le> d))
      \<and> (case until of
           None \<Rightarrow> True
         | Some hi \<Rightarrow> (case sql_date pf (measured_at r) of None \<Rightarrow> False | Some d \<Rightarrow> d \<le> hi)))"

definition list_spec ::
  "platform \<Rightarrow> measurement list \<Rightarrow> string option \<Rightarrow> string option \<Rightarrow> measurement list" where
  "list_spec pf db since until = sort_key measured_at (filter (within_bounds pf since until) db)"

subsection \<open>create_measurement: coercion of the payload\<close>

text \<open>
  The payload is a JSON object. A JSON number may be a non-finite float (Python's
  \<open>json\<close> reads \<open>NaN\<close> and \<open>Infinity\<close>), so floats carry these values here.
\<close>

datatype pyfloat = Fin real | PosInf | NegInf | NaN

datatype json =
    JNull
  | JBool bool
  | JInt int
  | JFloat pyfloat
  | JStr string
  | JList "json list"
  | JDict "(string \<times> json) list"

text \<open>
  Python's \<open>int(s)\<close> and \<open>float(s)\<close> on a text of ASCII characters: white space
  around the number is dropped, a sign may lead, digits may be grouped by single
  underscores. Rounding of the result to binary64 is not modelled.
\<close>

definition is_space :: "char \<Rightarrow> bool" where
  "is_space c = (c \<in> set [CHR 0x20, CHR 0x09, CHR 0x0A, CHR 0x0B, CHR 0x0C, CHR 0x0D,
                            CHR 0x1C, CHR 0x1D, CHR 0x1E, CHR 0x1F])"

definition strip :: "string \<Rightarrow> string" where
  "strip s = rev (dropWhile is_space (rev (dropWhile is_space s)))"

definition is_digit :: "char \<Rightarrow> bool" where
  "is_digit c = (CHR ''0'' \<le> c \<and> c \<le> CHR ''9'')"

definition digit_val :: "char \<Rightarrow> nat" where
  "digit_val c = of_char c - of_char CHR ''0''"

text \<open>\<open>digit (["_"] digit)*\<close>\<close>

fun digit_part :: "string \<Rightarrow> bool" where
  "digit_part [] = False"
| "digit_part [c] = is_digit c"
| "digit_part (c # d # cs) =
     (is_digit c \<and> (if d = CHR ''_'' then digit_part cs else digit_part (d # cs)))"

definition digits_of :: "string \<Rightarrow> nat list" where
  "digits_of s = map digit_val (filter is_digit s)"

definition dec_value :: "string \<Rightarrow> nat" where
  "dec_value s = foldl (\<lambda>acc d. 10 * acc + d) 0 (digits_of s)"

definition split_sign :: "string \<Rightarrow> bool \<times> string" where
  "split_sign s =
     (case s of
        [] \<Rightarrow> (False, [])
      | c # cs \<Rightarrow> if c = CHR ''-'' then (True, cs) else if c = CHR ''+'' then (False, cs) else (False, s))"

definition py_int_str :: "string \<Rightarrow> error + int" where
  "py_int_str s =
     (let (neg, body) = split_sign (strip s) in
      if digit_part body then Inr ((if neg then - 1 else 1) * int (dec_value body))
      else Inl ValueError)"

definition lower :: "string \<Rightarrow> string" where
  "lower s = map (\<lambda>c. if CHR ''A'' \<le> c \<and> c \<le> CHR ''Z'' then char_of (of_char c + (32::nat)) else c) s"

definition is_exp_mark :: "char \<Rightarrow> bool" where
  "is_exp_mark c = (c = CHR ''e'' \<or> c = CHR ''E'')"

text \<open>
  The mantissa \<open>[digitpart] "." digitpart | digitpart ["."]\<close>, as the pair of the
  digits before and after the point.
\<close>

definition split_mantissa :: "string \<Rightarrow> (string \<times> string) option" where
  "split_mantissa m =
     (let ip = takeWhile (\<lambda>c. c \<noteq> CHR ''.'') m;
          rest = dropWhile (\<lambda>c. c \<noteq> CHR ''.'') m
      in case rest of
           [] \<Rightarrow> if digit_part ip then Some (ip, []) else None
         | _ # fp \<Rightarrow>
             if (ip = [] \<or> digit_part ip) \<and> (fp = [] \<or> digit_part fp) \<and> \<not> (ip = [] \<and> fp = [])
             then Some (ip, fp) else None)"

definition split_exponent :: "string \<Rightarrow> int option" where
  "split_exponent e =
     (case e of
        [] \<Rightarrow> Some 0
      | _ # ds \<Rightarrow>
          (let (neg, body) = split_sign ds in
           if digit_part body then Some ((if neg then - 1 else 1) * int (dec_value body)) else None))"

definition py_float_str :: "string \<Rightarrow> error + pyfloat" where
  "py_float_str s =
     (let (neg, body) = split_sign (strip s) in
      if lower body = ''inf'' \<or> lower body = ''infinity'' then Inr (if neg then NegInf else PosInf)
      else if lower body = ''nan'' then Inr NaN
      else
        (case (split_mantissa (takeWhile (\<lambda>c. \<not> is_exp_mark c) body),
               split_exponent (dropWhile (\<lambda>c. \<not> is_exp_mark c) body)) of
           (Some (ip, fp), Some ex) \<Rightarrow>
             Inr (Fin ((if neg then - 1 else 1)
                       * (real (dec_value ip) + real (dec_value fp) / 10 ^ length (digits_of fp))
                       * 10 powi ex))
         | _ \<Rightarrow> Inl ValueError))"

text \<open>
  \<open>float(v)\<close> and \<open>int(v)\<close> on a JSON value. An integer too large for a float
  raises \<open>OverflowError\<close>; \<open>int\<close> of a float cuts the fraction off.
\<close>

fun py_float :: "json \<Rightarrow> error + pyfloat" where
  "py_float JNull = Inl TypeError"
| "py_float (JBool b) = Inr (Fin (if b then 1 else 0))"
| "py_float (JInt i) =
     (if \<bar>i\<bar> < 2 ^ 1024 - 2 ^ 970 then Inr (Fin (real_of_int i)) else Inl OverflowError)"
| "py_float (JFloat f) = Inr f"
| "py_float (JStr s) = py_float_str s"
| "py_float (JList xs) = Inl TypeError"
| "py_float (JDict kvs) = Inl TypeError"

fun py_int :: "json \<Rightarrow> error + int" where
  "py_int JNull = Inl TypeError"
| "py_int (JBool b) = Inr (if b then 1 else 0)"
| "py_int (JInt i) = Inr i"
| "py_int (JFloat (Fin r)) = Inr (if 0 \<le> r then \<lfloor>r\<rfloor> else \<lceil>r\<rceil>)"
| "py_int (JFloat PosInf) = Inl OverflowError"
| "py_int (JFloat NegInf) = Inl OverflowError"
| "py_int (JFloat NaN) = Inl ValueError"
| "py_int (JStr s) = py_int_str s"
| "py_int (JList xs) = Inl TypeError"
| "py_int (JDict kvs) = Inl TypeError"

text \<open>Python's truth value of a JSON value, for \<^verbatim>\<open>data.get("measured_at") or ...\<close>.\<close>

fun py_bool :: "json \<Rightarrow> bool" where
  "py_bool JNull = False"
| "py_bool (JBool b) = b"
| "py_bool (JInt i) = (i \<noteq> 0)"
| "py_bool (JFloat f) = (f \<noteq> Fin 0)"
| "py_bool (JStr s) = (s \<noteq> [])"
| "py_bool (JList xs) = (xs \<noteq> [])"
| "py_bool (JDict kvs) = (kvs \<noteq> [])"

text \<open>
  \<^verbatim>\<open>
  def n(key):
      v = data.get(key)
      return None if v in (None, "", "null") else float(v)
  \<close>
  There is no handler around \<open>float(v)\<close>: what it raises leaves the request handler.
\<close>

definition n_field :: "(string \<rightharpoonup> json) \<Rightarrow> string \<Rightarrow> error + pyfloat option" where
  "n_field data key =
     (case data key of
        None \<Rightarrow> Inr None
      | Some v \<Rightarrow>
          if v = JNull \<or> v = JStr [] \<or> v = JStr ''null'' then Inr None
          else (case py_float v of Inl e \<Rightarrow> Inl e | Inr f \<Rightarrow> Inr (Some f)))"

text \<open>
  \<^verbatim>\<open>
  resting_hr = data.get("resting_hr")
  try:
      resting_hr = None if resting_hr in (None, "") else int(resting_hr)
  except:
      resting_hr = None
  \<close>
\<close>

definition coerce_resting_hr :: "(string \<rightharpoonup> json) \<Rightarrow> int option" where
  "coerce_resting_hr data =
     (case data ''resting_hr'' of
        None \<Rightarrow> None
      | Some v \<Rightarrow>
          if v = JNull \<or> v = JStr [] then None
          else (case py_int v of Inl e \<Rightarrow> None | Inr i \<Rightarrow> Some i))"

text \<open>
  The values bound to the \<open>INSERT\<close> statement, in the order the handler computes
  them; the first exception ends the request. \<open>data\<close> is the JSON object of the
  request (\<open>data.get(key)\<close> is \<open>None\<close> for a missing key and for a JSON
  \<open>null\<close>), \<open>now\<close> is \<open>datetime.utcnow().isoformat()\<close>. The statement itself
  is run by the store: a bound \<open>None\<close> is stored as \<open>NULL\<close>, the absent value.
\<close>

record insert_params =
  p_measured_at :: json
  p_resting_hr :: "int option"
  p_hrv :: "pyfloat option"
  p_respiratory_rate :: "pyfloat option"
  p_body_temp :: "pyfloat option"
  p_spo2 :: "pyfloat option"
  p_notes :: "json option"

definition create_measurement :: "string \<Rightarrow> (string \<rightharpoonup> json) \<Rightarrow> error + insert_params" where
  "create_measurement now data =
     (let m_at = (case data ''measured_at'' of
                    None \<Rightarrow> JStr now
                  | Some v \<Rightarrow> if py_bool v then v else JStr now);
          rhr = coerce_resting_hr data
      in case n_field data ''hrv'' of
           Inl e \<Rightarrow> Inl e
         | Inr h \<Rightarrow>
        (case n_field data ''respiratory_rate'' of
           Inl e \<Rightarrow> Inl e
         | Inr rr \<Rightarrow>
        (case n_field data ''body_temp'' of
           Inl e \<Rightarrow> Inl e
         | Inr bt \<Rightarrow>
        (case n_field data ''spo2'' of
           Inl e \<Rightarrow> Inl e
         | Inr sp \<Rightarrow>
             Inr \<lparr>p_measured_at = m_at, p_resting_hr = rhr, p_hrv = h,
                  p_respiratory_rate = rr, p_body_temp = bt, p_spo2 = sp,
                  p_notes = (case data ''notes'' of Some JNull \<Rightarrow> None | v \<Rightarrow> v)\<rparr>))))"

subsection \<open>A concrete platform, for evaluating examples\<close>

text \<open>
  \<open>date.isoformat()\<close> of the day with proleptic Gregorian ordinal \<open>n\<close> (day 1 is
  0001-01-01), for the years 1 to 9999, after the library's \<open>_ord2ymd\<close>.
\<close>

definition days_before_month :: "int \<Rightarrow> int" where
  "days_before_month m = [0, 31, 59, 90, 120, 151, 181, 212, 243, 273, 304, 334] ! nat (m - 1)"

definition days_in_month :: "int \<Rightarrow> int" where
  "days_in_month m = [31, 28, 31, 30, 31, 30, 31, 31, 30, 31, 30, 31] ! nat (m - 1)"

definition ord2ymd :: "int \<Rightarrow> int \<times> int \<times> int" where
  "ord2ymd n =
     (let n0 = n - 1;
          n400 = n0 div 146097; r400 = n0 mod 146097;
          n100 = r400 div 36524; r100 = r400 mod 36524;
          n4 = r100 div 1461; r4 = r100 mod 1461;
          n1 = r4 div 365; r1 = r4 mod 365;
          year = n400 * 400 + 1 + n100 * 100 + n4 * 4 + n1
      in if n1 = 4 \<or> n100 = 4 then (year - 1, 12, 31)
         else
           let leapyear = (n1 = 3 \<and> (n4 \<noteq> 24 \<or> n100 = 3));
               month = (r1 + 50) div 32;
               preceding = days_before_month month + (if month > 2 \<and> leapyear then 1 else 0)
           in if preceding > r1
              then (year, month - 1,
                    r1 - (preceding - (days_in_month (month - 1)
                                        + (if month - 1 = 2 \<and> leapyear then 1 else 0))) + 1)
              else (year, month, r1 - preceding + 1))"

definition digit_char :: "int \<Rightarrow> char" where
  "digit_char k = char_of (48 + nat (k mod 10))"

definition date_isoformat :: "int \<Rightarrow> string" where
  "date_isoformat n =
     (case ord2ymd n of (y, m, d) \<Rightarrow>
        [digit_char (y div 1000), digit_char (y div 100), digit_char (y div 10), digit_char y]
        @ ''-'' @ [digit_char (m div 10), digit_char m]
        @ ''-'' @ [digit_char (d div 10), digit_char d])"

text \<open>
  SQLite's \<open>date()\<close> on the time texts \<open>YYYY-MM-DD\<close>, \<open>YYYY-MM-DDTHH:MM\<close>,
  \<open>YYYY-MM-DDTHH:MM:SS\<close> and \<open>YYYY-MM-DDTHH:MM:SS.fff\<close> with any number of
  fraction digits (a blank may stand for the \<open>T\<close>), for a day that exists in its
  month, the 29th of February left out: there it gives the first ten characters back.
  The other time texts of SQLite (time zones, Julian day numbers, \<open>now\<close>, days
  that it moves into the next month) are not covered: this function is applied only
  to texts of these four forms.
\<close>

definition two_digits :: "string \<Rightarrow> nat \<Rightarrow> nat \<Rightarrow> bool" where
  "two_digits s lo hi =
     (length s = 2 \<and> list_all is_digit s \<and> lo \<le> dec_value s \<and> dec_value s \<le> hi)"

definition date_text :: "string \<Rightarrow> bool" where
  "date_text s =
     (length s = 10 \<and> list_all is_digit (take 4 s) \<and> s ! 4 = CHR ''-''
      \<and> two_digits (take 2 (drop 5 s)) 1 12 \<and> s ! 7 = CHR ''-''
      \<and> two_digits (drop 8 s) 1
            (if dec_value (take 2 (drop 5 s)) = 2 then 28
             else nat (days_in_month (int (dec_value (take 2 (drop 5 s)))))))"

definition time_text :: "string \<Rightarrow> bool" where
  "time_text s =
     (two_digits (take 2 s) 0 23 \<and> length s \<ge> 5 \<and> s ! 2 = CHR '':''
      \<and> two_digits (take 2 (drop 3 s)) 0 59
      \<and> (length s = 5
         \<or> (length s = 8 \<and> s ! 5 = CHR '':'' \<and> two_digits (drop 6 s) 0 59)
         \<or> (length s > 9 \<and> s ! 5 = CHR '':'' \<and> two_digits (take 2 (drop 6 s)) 0 59
            \<and> s ! 8 = CHR ''.'' \<and> list_all is_digit (drop 9 s))))"

definition sqlite_date :: "string \<Rightarrow> string option" where
  "sqlite_date s =
     (if date_text (take 10 s)
         \<and> (length s = 10
            \<or> (length s > 10 \<and> (s ! 10 = CHR ''T'' \<or> s ! 10 = CHR '' '') \<and> time_text (drop 11 s)))
      then Some (take 10 s) else None)"

text \<open>
  \<open>round(x, 1)\<close> and the text of a number, on the numbers that are a whole number of
  tenths and below \<open>10^16\<close> in size: there \<open>round(x, 1)\<close> gives \<open>x\<close> back and the
  text is the digits, a point and one more digit. On other numbers Python's result
  depends on the binary64 value; these two functions are applied to tenths only.
\<close>

fun nat_digits :: "nat \<Rightarrow> string" where
  "nat_digits k = (if k < 10 then [digit_char (int k)]
                   else nat_digits (k div 10) @ [digit_char (int k)])"

definition str_tenths :: "real \<Rightarrow> string" where
  "str_tenths x =
     (let t = nat \<lfloor>\<bar>x\<bar> * 10\<rfloor>
      in (if x < 0 then ''-'' else []) @ nat_digits (t div 10) @ ''.'' @ [digit_char (int t)])"

definition round_tenths :: "real \<Rightarrow> real" where
  "round_tenths x =
     (let f = \<lfloor>x * 10\<rfloor>; r = x * 10 - real_of_int f
      in (if r < 1 / 2 \<or> (r = 1 / 2 \<and> even f) then real_of_int f else real_of_int (f + 1)) / 10)"

definition std_platform :: platform where
  "std_platform = \<lparr>sql_date = sqlite_date, isoformat = date_isoformat,
                    str_num = str_tenths, round1 = round_tenths\<rparr>"

text \<open>
  A store for the examples. The rows are in insertion order; the fourth was inserted
  after the second but carries an earlier time of the same day, the fifth carries the
  same time as the third.
\<close>

definition demo_db :: "measurement list" where
  "demo_db =
     [\<lparr>row_id = 1, measured_at = ''2024-01-05T08:00'', resting_hr = Some 60, hrv = Some 40,
       respiratory_rate = Some 14, body_temp = Some 36.6, spo2 = Some 97,
       notes_text = None, created_at = ''2024-01-05 08:01:00''\<rparr>,
      \<lparr>row_id = 2, measured_at = ''2024-01-05T20:00'', resting_hr = Some 62, hrv = Some 42,
       respiratory_rate = Some 15, body_temp = Some 38.2, spo2 = Some 90,
       notes_text = None, created_at = ''2024-01-05 20:01:00''\<rparr>,
      \<lparr>row_id = 3, measured_at = ''2024-01-07'', resting_hr = Some 64, hrv = Some 44,
       respiratory_rate = None, body_temp = Some 36.5, spo2 = Some 98,
       notes_text = None, created_at = ''2024-01-07 09:00:00''\<rparr>,
      \<lparr>row_id = 4, measured_at = ''2024-01-05T09:00'', resting_hr = Some 70, hrv = Some 50,
       respiratory_rate = Some 16, body_temp = Some 37.0, spo2 = Some 99,
       notes_text = None, created_at = ''2024-01-07 09:05:00''\<rparr>,
      \<lparr>row_id = 5, measured_at = ''2024-01-07'', resting_hr = Some 66, hrv = Some 35,
       respiratory_rate = None, body_temp = None, spo2 = Some 96,
       notes_text = Some ''evening'', created_at = ''2024-01-07 21:00:00''\<rparr>]"

subsection \<open>Least squares, as the specification words it\<close>

text \<open>
  The sum of the squared residuals of the line \<open>a + b * i\<close> against the values
  \<open>ys\<close> at the day indices \<open>0, 1, ...\<close>; \<open>b\<close> is an ordinary least-squares slope
  when some intercept makes the line minimal among all lines.
\<close>

definition sq_residuals :: "real list \<Rightarrow> real \<Rightarrow> real \<Rightarrow> real" where
  "sq_residuals ys a b = (\<Sum>i<length ys. (ys ! i - (a + b * real i))\<^sup>2)"

definition ols_slope :: "real list \<Rightarrow> real \<Rightarrow> bool" where
  "ols_slope ys b \<longleftrightarrow> (\<exists>a. \<forall>a' b'. sq_residuals ys a b \<le> sq_residuals ys a' b')"

definition idx_mean :: "nat \<Rightarrow> real" where
  "idx_mean n = (\<Sum>i<n. real i) / real n"

definition val_mean :: "real list \<Rightarrow> real" where
  "val_mean ys = (\<Sum>i<length ys. ys ! i) / real (length ys)"

definition cov_sum :: "real list \<Rightarrow> real" where
  "cov_sum ys = (\<Sum>i<length ys. (real i - idx_mean (length ys)) * (ys ! i - val_mean ys))"

definition var_sum :: "nat \<Rightarrow> real" where
  "var_sum n = (\<Sum>i<n. (real i - idx_mean n)\<^sup>2)"

subsection \<open>Notions for stating the properties\<close>

text \<open>
  The records of a calendar day that the query of \<open>compute_summary\<close> returns: the
  rows dated at or after the cutoff whose \<open>measured_at\<close> starts with the day, in
  insertion order.
\<close>

definition day_records :: "platform \<Rightarrow> measurement list \<Rightarrow> string \<Rightarrow> string \<Rightarrow> measurement list" where
  "day_records pf db cutoff d =
     filter (\<lambda>r. (case sql_date pf (measured_at r) of None \<Rightarrow> False | Some x \<Rightarrow> cutoff \<le> x)
                 \<and> day_key r = d) db"

text \<open>The anomaly messages of one day, from its temperature and oxygen slots.\<close>

definition day_anomalies ::
  "platform \<Rightarrow> string \<Rightarrow> real option \<Rightarrow> real option \<Rightarrow> string list" where
  "day_anomalies pf d t s =
     (case t of None \<Rightarrow> [] | Some tv \<Rightarrow> if tv \<ge> 38 then [high_temp_msg pf d tv] else [])
     @ (case s of None \<Rightarrow> [] | Some sv \<Rightarrow> if sv < 94 then [low_spo2_msg pf d sv] else [])"

text \<open>A text of decimal digits only, at least one: \<open>60\<close>, \<open>007\<close>.\<close>

definition digits_text :: "string \<Rightarrow> bool" where
  "digits_text s = (s \<noteq> [] \<and> list_all is_digit s)"

section \<open>Properties\<close>

subsection \<open>Present values of a series\<close>

lemma not_none_Nil [simp]: "not_none [] = []"
  by (simp add: not_none_def)

lemma not_none_Cons_None [simp]: "not_none (None # xs) = not_none xs"
  by (simp add: not_none_def)

lemma not_none_Cons_Some [simp]: "not_none (Some x # xs) = x # not_none xs"
  by (simp add: not_none_def)

lemma not_none_rev: "not_none (rev xs) = rev (not_none xs)"
  by (simp add: not_none_def rev_filter rev_map)

lemma not_none_empty_iff: "not_none vals = [] \<longleftrightarrow> (\<forall>v \<in> set vals. v = None)"
  by (auto simp: not_none_def filter_empty_conv)

lemma not_none_filter: "not_none (filter (\<lambda>v. v \<noteq> None) vals) = not_none vals"
  by (simp add: not_none_def)

lemma length_not_none_le: "length (not_none vals) \<le> length vals"
  by (simp add: not_none_def)

lemma next_not_none_hd:
  "next_not_none vals = (if not_none vals = [] then None else Some (hd (not_none vals)))"
proof (induction vals)
  case Nil
  show ?case by simp
next
  case (Cons v vs)
  show ?case
  proof (cases v)
    case None
    with Cons show ?thesis by simp
  next
    case (Some x)
    then show ?thesis by simp
  qed
qed

lemma next_not_none_rev_last:
  "next_not_none (rev vals) = (if not_none vals = [] then None else Some (last (not_none vals)))"
  by (simp add: next_not_none_hd not_none_rev hd_rev)

subsection \<open>The statistics of one metric\<close>

lemma first_val_compute_stats:
  "first_val (compute_stats vals) = (if not_none vals = [] then None else Some (hd (not_none vals)))"
  by (simp add: compute_stats_def Let_def next_not_none_hd)

lemma last_val_compute_stats:
  "last_val (compute_stats vals) = (if not_none vals = [] then None else Some (last (not_none vals)))"
  unfolding compute_stats_def Let_def next_not_none_rev_last by simp

lemma avg_compute_stats:
  "avg (compute_stats vals) =
     (if not_none vals = [] then None
      else Some (sum_list (not_none vals) / real (length (not_none vals))))"
  unfolding compute_stats_def Let_def mean_def not_none_filter by simp

lemma change_pct_compute_stats:
  "change_pct (compute_stats vals) =
     (if not_none vals = [] \<or> hd (not_none vals) = 0 then None
      else Some ((last (not_none vals) - hd (not_none vals)) / \<bar>hd (not_none vals)\<bar> * 100))"
  unfolding compute_stats_def Let_def next_not_none_rev_last pct_change_def
  by (simp add: next_not_none_hd)

lemma slope_compute_stats: "slope (compute_stats vals) = simple_trend vals"
  by (simp add: compute_stats_def Let_def)

lemma stats_compute_summary:
  "stats (compute_summary pf db today n) key =
     compute_stats (series (compute_summary pf db today n) key)"
  by (simp add: compute_summary_def Let_def)

lemma length_dates: "length (dates (compute_summary pf db today n)) = nat n"
  by (simp add: compute_summary_def Let_def days_list_def)

lemma length_series: "length (series (compute_summary pf db today n) key) = nat n"
  by (simp add: compute_summary_def Let_def series_of_def days_list_def)

text \<open>The summary of the example store over the three days up to 2024-01-07.\<close>

lemma demo_dates:
  "dates (compute_summary std_platform demo_db 738892 3) = [''2024-01-05'', ''2024-01-06'', ''2024-01-07'']"
  by code_simp

lemma demo_series_hrv:
  "series (compute_summary std_platform demo_db 738892 3) Hrv = [Some 42, None, Some 35]"
  by code_simp

lemma demo_series_hrv_1:
  "series (compute_summary std_platform demo_db 738892 1) Hrv = [Some 35]"
  by code_simp

text \<open>
  C1. For every metric of a computed summary, \<open>change_pct\<close> is
  \<open>(last - first) / |first| * 100\<close> when the first and the last non-absent slot of
  the metric's series exist and the first is not zero, and absent otherwise; \<open>first\<close>
  and \<open>last\<close> are these two slots. From 100 to 110 the change is exactly 10, from 0
  it is absent, and from an absent value it is absent.
\<close>

theorem C1_change_pct:
  "(let sm = compute_summary pf db today n;
        st = stats sm key;
        present = not_none (series sm key)
    in first_val st = (if present = [] then None else Some (hd present))
     \<and> last_val st = (if present = [] then None else Some (last present))
     \<and> change_pct st =
         (case (first_val st, last_val st) of
            (Some f, Some l) \<Rightarrow> if f = 0 then None else Some ((l - f) / \<bar>f\<bar> * 100)
          | _ \<Rightarrow> None))
   \<and> pct_change (Some 100) (Some 110) = Some 10
   \<and> pct_change (Some 0) (Some 5) = None
   \<and> pct_change None new = None"
  by (simp add: Let_def stats_compute_summary first_val_compute_stats last_val_compute_stats
        change_pct_compute_stats pct_change_def)

subsection \<open>The trend slope\<close>

lemma sum_list_upt_sum: "sum_list (map f [0..<n]) = (\<Sum>i<n. f i)"
  by (simp add: interv_sum_list_conv_sum_set_nat atLeast0LessThan)

lemma length_zero_filled [simp]: "length (zero_filled vals) = length vals"
  by (simp add: zero_filled_def)

text \<open>With two days or more the day indices are not all equal to their mean.\<close>

lemma var_sum_pos:
  assumes "2 \<le> n"
  shows "0 < var_sum n"
proof -
  have nonneg: "0 \<le> var_sum n"
    by (simp add: var_sum_def sum_nonneg)
  have "var_sum n \<noteq> 0"
  proof
    assume z: "var_sum n = 0"
    have all0: "\<forall>i\<in>{..<n}. (real i - idx_mean n)\<^sup>2 = 0"
      using z unfolding var_sum_def
      by (subst (asm) sum_nonneg_eq_0_iff) auto
    have "0 \<in> {..<n}" and "1 \<in> {..<n}"
      using assms by auto
    with all0 have "(real 0 - idx_mean n)\<^sup>2 = 0" and "(real 1 - idx_mean n)\<^sup>2 = 0"
      by blast+
    then show False by simp
  qed
  with nonneg show ?thesis by simp
qed

text \<open>
  What \<open>simple_trend\<close> returns past its guard: the quotient of the two sums, the
  branch for a zero denominator is never taken.
\<close>

lemma simple_trend_sums:
  assumes "2 \<le> length (not_none vals)"
  shows "simple_trend vals = Some (cov_sum (zero_filled vals) / var_sum (length vals))"
proof -
  let ?n = "length vals"
  let ?ys = "zero_filled vals"
  have n2: "2 \<le> ?n"
    using assms length_not_none_le [of vals] by linarith
  have xm: "sum_list (map real [0..<?n]) / real ?n = idx_mean ?n"
    by (simp add: idx_mean_def sum_list_upt_sum)
  have ym: "sum_list ?ys / real ?n = val_mean ?ys"
    by (simp add: val_mean_def sum_list_sum_nth atLeast0LessThan)
  have num: "sum_list (map (\<lambda>i. (map real [0..<?n] ! i - idx_mean ?n) * (?ys ! i - val_mean ?ys)) [0..<?n])
               = cov_sum ?ys"
    unfolding sum_list_upt_sum cov_sum_def by (rule sum.cong) auto
  have den: "sum_list (map (\<lambda>i. (map real [0..<?n] ! i - idx_mean ?n)\<^sup>2) [0..<?n]) = var_sum ?n"
    unfolding sum_list_upt_sum var_sum_def by (rule sum.cong) auto
  have nz: "var_sum ?n \<noteq> 0"
    using var_sum_pos [OF n2] by simp
  from assms have "\<not> length (not_none vals) < 2" by simp
  then show ?thesis
    unfolding simple_trend_def Let_def xm ym num den using nz by simp
qed

lemma simple_trend_few: "length (not_none vals) < 2 \<Longrightarrow> simple_trend vals = None"
  by (simp add: simple_trend_def Let_def)

text \<open>
  The squared residuals of any line, split around the means: the part that depends on
  the slope and the part that depends on the intercept.
\<close>

lemma sq_residuals_split:
  assumes "0 < length ys"
  shows "sq_residuals ys a b =
           (\<Sum>i<length ys. (ys ! i - val_mean ys)\<^sup>2) - 2 * b * cov_sum ys
             + b\<^sup>2 * var_sum (length ys)
             + real (length ys) * (val_mean ys - a - b * idx_mean (length ys))\<^sup>2"
proof -
  define n where "n = length ys"
  define m where "m = idx_mean n"
  define w where "w = val_mean ys"
  define c where "c = w - a - b * m"
  define u where "u = (\<lambda>i. real i - m)"
  define v where "v = (\<lambda>i. ys ! i - w)"
  have npos: "real n \<noteq> 0" using assms by (simp add: n_def)
  have su: "(\<Sum>i<n. u i) = 0"
    using npos by (simp add: u_def m_def idx_mean_def sum_subtractf)
  have sv: "(\<Sum>i<n. v i) = 0"
    using npos by (simp add: v_def w_def val_mean_def sum_subtractf n_def)
  have "sq_residuals ys a b =
          (\<Sum>i<n. (v i)\<^sup>2 - 2 * b * (u i * v i) + b\<^sup>2 * (u i)\<^sup>2 + c\<^sup>2 + 2 * c * v i - 2 * b * c * u i)"
    unfolding sq_residuals_def n_def [symmetric]
    by (rule sum.cong) (auto simp: u_def v_def c_def power2_eq_square algebra_simps)
  also have "\<dots> = (\<Sum>i<n. (v i)\<^sup>2) - 2 * b * (\<Sum>i<n. u i * v i) + b\<^sup>2 * (\<Sum>i<n. (u i)\<^sup>2)
                    + real n * c\<^sup>2 + 2 * c * (\<Sum>i<n. v i) - 2 * b * c * (\<Sum>i<n. u i)"
    by (simp add: sum.distrib sum_subtractf sum_distrib_left)
  also have "\<dots> = (\<Sum>i<n. (v i)\<^sup>2) - 2 * b * (\<Sum>i<n. u i * v i) + b\<^sup>2 * (\<Sum>i<n. (u i)\<^sup>2)
                    + real n * c\<^sup>2"
    by (simp add: su sv)
  finally show ?thesis
    by (simp add: n_def m_def w_def c_def u_def v_def cov_sum_def var_sum_def)
qed

text \<open>
  How much worse the line \<open>a + b * i\<close> is than the line through the means with
  slope \<open>cov_sum / var_sum\<close>.
\<close>

lemma sq_residuals_excess:
  assumes "2 \<le> length ys"
  defines "b0 \<equiv> cov_sum ys / var_sum (length ys)"
  shows "sq_residuals ys a b
           - sq_residuals ys (val_mean ys - b0 * idx_mean (length ys)) b0 =
         var_sum (length ys) * (b - b0)\<^sup>2
           + real (length ys) * (val_mean ys - a - b * idx_mean (length ys))\<^sup>2"
proof -
  have pos: "0 < length ys" using assms(1) by linarith
  have vpos: "0 < var_sum (length ys)" using var_sum_pos assms(1) by simp
  have cov: "cov_sum ys = b0 * var_sum (length ys)"
    using vpos by (simp add: b0_def)
  show ?thesis
    unfolding sq_residuals_split [OF pos] cov
    by (simp add: power2_eq_square algebra_simps)
qed

lemma ols_slope_cov_var:
  assumes "2 \<le> length ys"
  shows "ols_slope ys (cov_sum ys / var_sum (length ys))"
proof -
  define b0 where "b0 = cov_sum ys / var_sum (length ys)"
  define a0 where "a0 = val_mean ys - b0 * idx_mean (length ys)"
  have vpos: "0 < var_sum (length ys)" using var_sum_pos assms by simp
  have "sq_residuals ys a0 b0 \<le> sq_residuals ys a' b'" for a' b'
  proof -
    have "0 \<le> var_sum (length ys) * (b' - b0)\<^sup>2
                + real (length ys) * (val_mean ys - a' - b' * idx_mean (length ys))\<^sup>2"
      using vpos by simp
    with sq_residuals_excess [OF assms, of a' b'] show ?thesis
      unfolding a0_def b0_def by linarith
  qed
  then show ?thesis
    unfolding ols_slope_def b0_def by blast
qed

lemma ols_slope_unique:
  assumes "2 \<le> length ys" and "ols_slope ys b"
  shows "b = cov_sum ys / var_sum (length ys)"
proof -
  define b0 where "b0 = cov_sum ys / var_sum (length ys)"
  define a0 where "a0 = val_mean ys - b0 * idx_mean (length ys)"
  have vpos: "0 < var_sum (length ys)" using var_sum_pos assms(1) by simp
  from assms(2) obtain a where least: "\<And>a' b'. sq_residuals ys a b \<le> sq_residuals ys a' b'"
    unfolding ols_slope_def by blast
  have "sq_residuals ys a b \<le> sq_residuals ys a0 b0" by (rule least)
  with sq_residuals_excess [OF assms(1), of a b]
  have le: "var_sum (length ys) * (b - b0)\<^sup>2
              + real (length ys) * (val_mean ys - a - b * idx_mean (length ys))\<^sup>2 \<le> 0"
    unfolding a0_def b0_def by linarith
  have "0 \<le> real (length ys) * (val_mean ys - a - b * idx_mean (length ys))\<^sup>2" by simp
  with le have "var_sum (length ys) * (b - b0)\<^sup>2 \<le> 0" by linarith
  moreover have "0 \<le> var_sum (length ys) * (b - b0)\<^sup>2" using vpos by simp
  ultimately have "var_sum (length ys) * (b - b0)\<^sup>2 = 0" by linarith
  with vpos have "b = b0" by simp
  then show ?thesis by (simp add: b0_def)
qed

text \<open>
  C2, as stated, fails at \<open>N = 1\<close>: there the slope is absent, not 0. A series of
  length 1 has fewer than two present values, and \<open>simple_trend\<close> returns before
  it looks at the denominator.
\<close>

theorem C2_counterexample:
  "slope (stats (compute_summary std_platform demo_db 738892 1) Hrv) = None
   \<and> series (compute_summary std_platform demo_db 738892 1) Hrv = [Some 35]"
  by (simp add: stats_compute_summary slope_compute_stats demo_series_hrv_1 simple_trend_def)

text \<open>
  C2 (amended). For every metric of a computed summary, the slope is absent when the
  series has fewer than two non-absent values, which is always so for \<open>N \<le> 1\<close>;
  with two or more it is the ordinary least-squares slope of the values against the
  zero-based day index, absent values taken as 0, and that slope is unique.
\<close>

theorem C2_slope:
  "(let vals = series (compute_summary pf db today n) key;
        sl = slope (stats (compute_summary pf db today n) key)
    in (length (not_none vals) < 2 \<longrightarrow> sl = None)
     \<and> (n \<le> 1 \<longrightarrow> sl = None)
     \<and> (2 \<le> length (not_none vals) \<longrightarrow>
          (\<exists>b. sl = Some b \<and> ols_slope (zero_filled vals) b
               \<and> (\<forall>b'. ols_slope (zero_filled vals) b' \<longrightarrow> b' = b))))"
proof -
  define vals where "vals = series (compute_summary pf db today n) key"
  have sl: "slope (stats (compute_summary pf db today n) key) = simple_trend vals"
    by (simp add: stats_compute_summary slope_compute_stats vals_def)
  have len: "length vals = nat n"
    by (simp add: vals_def length_series)
  have few: "length (not_none vals) < 2 \<longrightarrow> simple_trend vals = None"
    by (simp add: simple_trend_few)
  have one: "n \<le> 1 \<longrightarrow> simple_trend vals = None"
  proof
    assume "n \<le> 1"
    with len have "length vals < 2" by simp
    with length_not_none_le [of vals] have "length (not_none vals) < 2" by linarith
    then show "simple_trend vals = None" by (rule simple_trend_few)
  qed
  have many: "2 \<le> length (not_none vals) \<longrightarrow>
          (\<exists>b. simple_trend vals = Some b \<and> ols_slope (zero_filled vals) b
               \<and> (\<forall>b'. ols_slope (zero_filled vals) b' \<longrightarrow> b' = b))"
  proof
    assume two: "2 \<le> length (not_none vals)"
    with length_not_none_le [of vals] have l2: "2 \<le> length (zero_filled vals)" by simp
    let ?b = "cov_sum (zero_filled vals) / var_sum (length vals)"
    have "simple_trend vals = Some ?b" using two by (rule simple_trend_sums)
    moreover have "ols_slope (zero_filled vals) ?b"
      using ols_slope_cov_var [OF l2] by simp
    moreover have "\<forall>b'. ols_slope (zero_filled vals) b' \<longrightarrow> b' = ?b"
      using ols_slope_unique [OF l2] by simp
    ultimately show "\<exists>b. simple_trend vals = Some b \<and> ols_slope (zero_filled vals) b
               \<and> (\<forall>b'. ols_slope (zero_filled vals) b' \<longrightarrow> b' = b)" by blast
  qed
  from few one many show ?thesis
    unfolding Let_def sl vals_def [symmetric] by blast
qed

lemma demo_slope_hrv: "simple_trend [Some 42, None, Some 35] = Some (- (7 / 2))"
  by code_simp

theorem C2_slope_witness:
  "2 \<le> length (not_none (series (compute_summary std_platform demo_db 738892 3) Hrv))
   \<and> slope (stats (compute_summary std_platform demo_db 738892 3) Hrv) = Some (- (7 / 2))
   \<and> ols_slope (zero_filled [Some 42, None, Some 35]) (- (7 / 2))
   \<and> (1::int) \<le> 1
   \<and> length (not_none (series (compute_summary std_platform demo_db 738892 1) Hrv)) < 2
   \<and> slope (stats (compute_summary std_platform demo_db 738892 1) Hrv) = None"
proof -
  have sl3: "slope (stats (compute_summary std_platform demo_db 738892 3) Hrv) = Some (- (7 / 2))"
    by (simp only: stats_compute_summary slope_compute_stats demo_series_hrv demo_slope_hrv)
  from C2_slope [of std_platform demo_db 738892 3 Hrv]
  have "ols_slope (zero_filled [Some 42, None, Some 35]) (- (7 / 2))"
    unfolding Let_def demo_series_hrv sl3 by simp
  moreover from C2_slope [of std_platform demo_db 738892 1 Hrv]
  have "slope (stats (compute_summary std_platform demo_db 738892 1) Hrv) = None"
    unfolding Let_def by simp
  ultimately show ?thesis
    by (simp add: sl3 demo_series_hrv demo_series_hrv_1)
qed

text \<open>
  C9. In a summary over \<open>N \<ge> 1\<close> days every series has \<open>N\<close> slots and, for each
  metric: \<open>first\<close> is absent exactly when \<open>last\<close> is; both are present exactly when
  some slot is present; \<open>avg\<close> is absent exactly when every slot is absent; and
  \<open>change_pct\<close> is present whenever \<open>first\<close> and \<open>last\<close> are present and
  \<open>first\<close> is not zero.
\<close>

theorem C9_stats_presence:
  "1 \<le> n \<Longrightarrow>
   (let sm = compute_summary pf db today n;
        st = stats sm key;
        vals = series sm key
    in length vals = nat n
     \<and> (first_val st = None \<longleftrightarrow> last_val st = None)
     \<and> (first_val st \<noteq> None \<longleftrightarrow> (\<exists>v \<in> set vals. v \<noteq> None))
     \<and> (avg st = None \<longleftrightarrow> (\<forall>v \<in> set vals. v = None))
     \<and> (first_val st \<noteq> None \<and> last_val st \<noteq> None \<and> first_val st \<noteq> Some 0
          \<longrightarrow> change_pct st \<noteq> None))"
  unfolding Let_def stats_compute_summary first_val_compute_stats last_val_compute_stats
    avg_compute_stats change_pct_compute_stats length_series
  by (auto simp: not_none_empty_iff)

lemma demo_stats_hrv:
  "first_val (stats (compute_summary std_platform demo_db 738892 3) Hrv) = Some 42"
  "last_val (stats (compute_summary std_platform demo_db 738892 3) Hrv) = Some 35"
  "avg (stats (compute_summary std_platform demo_db 738892 3) Hrv) = Some (77 / 2)"
  by (simp_all add: stats_compute_summary demo_series_hrv first_val_compute_stats
        last_val_compute_stats avg_compute_stats)

theorem C9_stats_presence_witness:
  "(1::int) \<le> 3
   \<and> first_val (stats (compute_summary std_platform demo_db 738892 3) Hrv) = Some 42
   \<and> last_val (stats (compute_summary std_platform demo_db 738892 3) Hrv) = Some 35
   \<and> avg (stats (compute_summary std_platform demo_db 738892 3) Hrv) \<noteq> None
   \<and> change_pct (stats (compute_summary std_platform demo_db 738892 3) Hrv) \<noteq> None"
proof -
  have h: "(1::int) \<le> 3" by simp
  from C9_stats_presence [OF h, of std_platform demo_db 738892 Hrv]
  show ?thesis
    unfolding Let_def by (simp add: demo_stats_hrv demo_series_hrv)
qed

subsection \<open>The daily slots\<close>

lemma fold_by_day:
  "fold (\<lambda>it by_day. by_day(day_key it \<mapsto> it)) items m d =
     (if filter (\<lambda>it. day_key it = d) items = [] then m d
      else Some (last (filter (\<lambda>it. day_key it = d) items)))"
proof (induction items arbitrary: m)
  case Nil
  show ?case by simp
next
  case (Cons it items)
  let ?F = "\<lambda>it by_day. by_day(day_key it \<mapsto> it)"
  have step: "fold ?F (it # items) m d = fold ?F items (m(day_key it \<mapsto> it)) d"
    by simp
  show ?case
  proof (cases "day_key it = d")
    case True
    then show ?thesis
      unfolding step Cons.IH [of "m(day_key it \<mapsto> it)"] by simp
  next
    case False
    then show ?thesis
      unfolding step Cons.IH [of "m(day_key it \<mapsto> it)"] by simp
  qed
qed

lemma build_by_day_last:
  "build_by_day items d =
     (if filter (\<lambda>it. day_key it = d) items = [] then None
      else Some (last (filter (\<lambda>it. day_key it = d) items)))"
  by (simp add: build_by_day_def fold_by_day)

lemma sorted_le_last: "sorted xs \<Longrightarrow> x \<in> set xs \<Longrightarrow> x \<le> last xs"
  by (induction xs) auto

lemma last_filter_keep:
  assumes "xs \<noteq> []" and "P (last xs)"
  shows "last (filter P xs) = last xs"
proof -
  have "filter P (butlast xs @ [last xs]) = filter P (butlast xs) @ [last xs]"
    using assms(2) by simp
  then show ?thesis
    using assms(1) by (metis append_butlast_last_id last_snoc)
qed

lemma last_sort_key:
  assumes "xs \<noteq> []"
  shows "last (sort_key f xs) \<in> set xs"
    and "\<forall>x \<in> set xs. f x \<le> f (last (sort_key f xs))"
    and "last (filter (\<lambda>x. f x = f (last (sort_key f xs))) xs) = last (sort_key f xs)"
proof -
  let ?ys = "sort_key f xs"
  have ne: "?ys \<noteq> []" using assms by (metis length_sort list.size(3) length_0_conv)
  have mem: "last ?ys \<in> set ?ys" using ne by (rule last_in_set)
  show "last ?ys \<in> set xs" by (metis mem set_sort)
  have srt: "sorted (map f ?ys)" by simp
  show "\<forall>x \<in> set xs. f x \<le> f (last ?ys)"
  proof
    fix x assume "x \<in> set xs"
    then have "f x \<in> set (map f ?ys)" by simp
    with srt have "f x \<le> last (map f ?ys)" by (rule sorted_le_last)
    then show "f x \<le> f (last ?ys)" using ne by (simp add: last_map)
  qed
  have "filter (\<lambda>x. f x = f (last ?ys)) xs = filter (\<lambda>x. f x = f (last ?ys)) ?ys"
    by (simp add: sort_key_stable)
  also have "last \<dots> = last ?ys"
    using ne by (simp add: last_filter_keep)
  finally show "last (filter (\<lambda>x. f x = f (last ?ys)) xs) = last ?ys" .
qed

lemma day_filter_select_since:
  "filter (\<lambda>it. day_key it = d) (select_since pf db cutoff) =
     sort_key measured_at (day_records pf db cutoff d)"
  by (simp add: select_since_def day_records_def filter_sort)

lemma slot_by_day:
  assumes "i < nat n"
  shows "series (compute_summary pf db today n) key ! i =
           (case build_by_day (select_since pf db (isoformat pf (today - (n - 1))))
                   (dates (compute_summary pf db today n) ! i) of
              None \<Rightarrow> None
            | Some it \<Rightarrow> get_metric it key)"
  using assms by (simp add: compute_summary_def Let_def series_of_def days_list_def)

lemma nth_dates:
  "i < nat n \<Longrightarrow> dates (compute_summary pf db today n) ! i = isoformat pf (today - (n - 1 - int i))"
  by (simp add: compute_summary_def Let_def days_list_def)

text \<open>
  C4. In every computed summary the slot of day \<open>i\<close> holds, for every metric, the
  value of the last record of that day in ascending \<open>measured_at\<close> order: among the
  records of the day no \<open>measured_at\<close> is greater than the winner's, and among those
  with the winner's \<open>measured_at\<close> the winner is the one inserted last. A day
  without records has absent slots.
\<close>

theorem C4_last_record_of_day:
  "i < nat n \<Longrightarrow>
   (let sm = compute_summary pf db today n;
        d = dates sm ! i;
        recs = day_records pf db (isoformat pf (today - (n - 1))) d
    in d = isoformat pf (today - (n - 1 - int i))
     \<and> (if recs = [] then (\<forall>key. series sm key ! i = None)
        else (\<exists>w \<in> set recs.
                (\<forall>r \<in> set recs. measured_at r \<le> measured_at w)
              \<and> last (filter (\<lambda>r. measured_at r = measured_at w) recs) = w
              \<and> w = last (sort_key measured_at recs)
              \<and> (\<forall>key. series sm key ! i = get_metric w key))))"
proof -
  assume i: "i < nat n"
  define sm where "sm = compute_summary pf db today n"
  define d where "d = dates sm ! i"
  define recs where "recs = day_records pf db (isoformat pf (today - (n - 1))) d"
  have slot: "series sm key ! i =
      (if recs = [] then None else get_metric (last (sort_key measured_at recs)) key)" for key
  proof -
    have "sort_key measured_at recs = [] \<longleftrightarrow> recs = []"
      by (metis length_sort length_0_conv)
    then show ?thesis
      unfolding sm_def slot_by_day [OF i] build_by_day_last day_filter_select_since
        recs_def d_def sm_def by simp
  qed
  have "recs = [] \<Longrightarrow> \<forall>key. series sm key ! i = None"
    by (simp add: slot)
  moreover have "recs \<noteq> [] \<Longrightarrow> \<exists>w \<in> set recs.
                (\<forall>r \<in> set recs. measured_at r \<le> measured_at w)
              \<and> last (filter (\<lambda>r. measured_at r = measured_at w) recs) = w
              \<and> w = last (sort_key measured_at recs)
              \<and> (\<forall>key. series sm key ! i = get_metric w key)"
    using last_sort_key [of recs measured_at] by (simp add: slot)
  moreover have "d = isoformat pf (today - (n - 1 - int i))"
    unfolding d_def sm_def by (rule nth_dates [OF i])
  ultimately show ?thesis
    unfolding Let_def sm_def [symmetric] d_def [symmetric] recs_def [symmetric] by simp
qed

lemma demo_day_records:
  "map row_id (day_records std_platform demo_db ''2024-01-05'' ''2024-01-05'') = [1, 2, 4]"
  "map row_id (day_records std_platform demo_db ''2024-01-05'' ''2024-01-07'') = [3, 5]"
  by code_simp+

lemma demo_slots:
  "map (\<lambda>key. series (compute_summary std_platform demo_db 738892 3) key ! 0)
     [Resting_hr, Hrv, Respiratory_rate, Body_temp, Spo2] = [Some 62, Some 42, Some 15, Some 38.2, Some 90]"
  "map (\<lambda>key. series (compute_summary std_platform demo_db 738892 3) key ! 2)
     [Resting_hr, Hrv, Respiratory_rate, Body_temp, Spo2] = [Some 66, Some 35, None, None, Some 96]"
  by code_simp+

lemma demo_cutoff: "date_isoformat (738892 - (3 - 1)) = ''2024-01-05''"
  by code_simp

theorem C4_last_record_of_day_witness:
  "(0::nat) < nat 3
   \<and> map row_id (day_records std_platform demo_db ''2024-01-05'' ''2024-01-05'') = [1, 2, 4]
   \<and> (\<exists>w \<in> set (day_records std_platform demo_db ''2024-01-05'' ''2024-01-05'').
         (\<forall>r \<in> set (day_records std_platform demo_db ''2024-01-05'' ''2024-01-05'').
            measured_at r \<le> measured_at w)
       \<and> (\<forall>key. series (compute_summary std_platform demo_db 738892 3) key ! 0 = get_metric w key))
   \<and> map (\<lambda>key. series (compute_summary std_platform demo_db 738892 3) key ! 0)
        [Resting_hr, Hrv, Respiratory_rate, Body_temp, Spo2]
       = [Some 62, Some 42, Some 15, Some 38.2, Some 90]"
proof -
  have h: "(0::nat) < nat 3" by simp
  have ne: "day_records std_platform demo_db ''2024-01-05'' ''2024-01-05'' \<noteq> []"
    using demo_day_records(1) by auto
  have d0: "dates (compute_summary std_platform demo_db 738892 3) ! 0 = ''2024-01-05''"
    by (simp add: demo_dates)
  have iso: "isoformat std_platform 738890 = ''2024-01-05''"
    using demo_cutoff by (simp add: std_platform_def)
  from C4_last_record_of_day [OF h, of std_platform demo_db 738892]
  have "\<exists>w \<in> set (day_records std_platform demo_db ''2024-01-05'' ''2024-01-05'').
         (\<forall>r \<in> set (day_records std_platform demo_db ''2024-01-05'' ''2024-01-05'').
            measured_at r \<le> measured_at w)
       \<and> (\<forall>key. series (compute_summary std_platform demo_db 738892 3) key ! 0 = get_metric w key)"
    using ne by (simp add: Let_def d0 iso) blast
  then show ?thesis
    using h demo_day_records(1) demo_slots(1) by blast
qed

subsection \<open>Anomalies\<close>

lemma anomaly_step_append:
  "anomaly_step pf temps sats (idx, d) anoms = anoms @ day_anomalies pf d (temps ! idx) (sats ! idx)"
  by (cases "temps ! idx"; cases "sats ! idx") (simp_all add: anomaly_step_def day_anomalies_def Let_def)

lemma fold_anomaly_step:
  "fold (anomaly_step pf temps sats) (enumerate k ds) anoms =
     anoms @ concat (map (\<lambda>(idx, d). day_anomalies pf d (temps ! idx) (sats ! idx)) (enumerate k ds))"
proof (induction ds arbitrary: k anoms)
  case Nil
  show ?case by simp
next
  case (Cons d ds)
  show ?case
    by (simp add: Cons.IH anomaly_step_append)
qed

lemma map_enumerate_nth:
  "map f (enumerate 0 ds) = map (\<lambda>i. f (i, ds ! i)) [0..<length ds]"
  by (rule nth_equalityI) (simp_all add: nth_enumerate_eq)

lemma find_anomalies_concat:
  "find_anomalies pf ds temps sats =
     concat (map (\<lambda>i. day_anomalies pf (ds ! i) (temps ! i) (sats ! i)) [0..<length ds])"
  by (simp add: find_anomalies_def fold_anomaly_step map_enumerate_nth)

text \<open>
  C5. The anomalies of a computed summary are, day by day in the order of the \<open>N\<close>
  dates, a dated "high temp" message exactly when the day's body temperature is
  present and at least 38, followed by a dated "low SpO2" message exactly when the
  day's oxygen saturation is present and below 94; a day crossing both thresholds
  gives the two messages, temperature first.
\<close>

theorem C5_anomalies:
  "(let sm = compute_summary pf db today n
    in anomalies sm =
         concat (map (\<lambda>i.
           (case series sm Body_temp ! i of
              None \<Rightarrow> []
            | Some t \<Rightarrow> if t \<ge> 38 then [high_temp_msg pf (dates sm ! i) t] else [])
           @ (case series sm Spo2 ! i of
                None \<Rightarrow> []
              | Some s \<Rightarrow> if s < 94 then [low_spo2_msg pf (dates sm ! i) s] else []))
           [0..<nat n]))
   \<and> high_temp_msg pf d t = d @ '': high temp '' @ str_num pf t @ [CHR 0xC2, CHR 0xB0] @ ''C''
   \<and> low_spo2_msg pf d s = d @ '': low SpO'' @ [CHR 0xE2, CHR 0x82, CHR 0x82] @ '' '' @ str_num pf s @ ''%''"
proof -
  have "anomalies (compute_summary pf db today n) =
          find_anomalies pf (dates (compute_summary pf db today n))
            (series (compute_summary pf db today n) Body_temp)
            (series (compute_summary pf db today n) Spo2)"
    by (simp add: compute_summary_def Let_def)
  then show ?thesis
    by (simp add: Let_def find_anomalies_concat length_dates day_anomalies_def
          high_temp_msg_def low_spo2_msg_def degree_sign_def subscript_two_def)
qed

lemma demo_anomalies:
  "anomalies (compute_summary std_platform demo_db 738892 3) =
     [''2024-01-05: high temp 38.2'' @ [CHR 0xC2, CHR 0xB0] @ ''C'',
      ''2024-01-05: low SpO'' @ [CHR 0xE2, CHR 0x82, CHR 0x82] @ '' 90.0%'']"
  by code_simp

subsection \<open>The narrative\<close>

lemma change_pct_needs_avg:
  "change_pct (compute_stats vals) \<noteq> None \<Longrightarrow>
     first_val (compute_stats vals) \<noteq> None \<and> last_val (compute_stats vals) \<noteq> None
     \<and> avg (compute_stats vals) \<noteq> None"
  unfolding change_pct_compute_stats first_val_compute_stats last_val_compute_stats avg_compute_stats
  by (simp split: if_splits)

lemma metric_part_compute_stats:
  "metric_part pf label unit threshold (compute_stats vals) =
     Inr (case change_pct (compute_stats vals) of
            None \<Rightarrow> []
          | Some cp \<Rightarrow>
              if \<bar>cp\<bar> \<ge> threshold
              then [change_sentence pf label unit cp (the (avg (compute_stats vals)))]
              else [])"
proof (cases "change_pct (compute_stats vals)")
  case None
  then show ?thesis by (simp add: metric_part_def)
next
  case (Some cp)
  then have "change_pct (compute_stats vals) \<noteq> None" by simp
  from change_pct_needs_avg [OF this] Some show ?thesis
    by (auto simp: metric_part_def)
qed

text \<open>
  C6. For the summary of any store, the parts of the deterministic narrative are, in
  this order: the resting-HR sentence exactly when the resting-HR \<open>change_pct\<close> is
  present with absolute value at least 3, the HRV sentence exactly when the HRV
  \<open>change_pct\<close> is present with absolute value at least 6, and the "Anomalies: "
  sentence exactly when there are anomalies. The narrative is the parts joined by
  blanks, or the fixed "no notable changes" sentence when there is no part. The
  direction is "increased" for a positive change, and the average a sentence prints
  is present.
\<close>

theorem C6_narrative:
  "(let sm = compute_summary pf db today n;
        r = stats sm Resting_hr;
        h = stats sm Hrv;
        rhr_part = (case change_pct r of
                      None \<Rightarrow> []
                    | Some cp \<Rightarrow>
                        if \<bar>cp\<bar> \<ge> 3
                        then [''Resting HR '' @ (if cp > 0 then ''increased'' else ''decreased'')
                              @ '' by '' @ str_num pf (round1 pf cp) @ ''% (avg ''
                              @ str_num pf (round1 pf (the (avg r))) @ '' bpm).'']
                        else []);
        hrv_part = (case change_pct h of
                      None \<Rightarrow> []
                    | Some cp \<Rightarrow>
                        if \<bar>cp\<bar> \<ge> 6
                        then [''HRV '' @ (if cp > 0 then ''increased'' else ''decreased'')
                              @ '' by '' @ str_num pf (round1 pf cp) @ ''% (avg ''
                              @ str_num pf (round1 pf (the (avg h))) @ '' ms).'']
                        else []);
        anomaly_part = (if anomalies sm \<noteq> [] then [''Anomalies: '' @ join ''; '' (anomalies sm)]
                        else []);
        parts = rhr_part @ hrv_part @ anomaly_part
    in insight_parts pf sm = Inr parts
     \<and> deterministic_insight pf sm =
         Inr (if parts = [] then ''No notable changes detected in the last period.''
              else join '' '' parts)
     \<and> (change_pct r \<noteq> None \<longrightarrow> avg r \<noteq> None)
     \<and> (change_pct h \<noteq> None \<longrightarrow> avg h \<noteq> None))"
proof -
  define sm where "sm = compute_summary pf db today n"
  have r: "stats sm Resting_hr = compute_stats (series sm Resting_hr)"
    and h: "stats sm Hrv = compute_stats (series sm Hrv)"
    unfolding sm_def by (rule stats_compute_summary)+
  have parts: "insight_parts pf sm =
      Inr ((case change_pct (stats sm Resting_hr) of
              None \<Rightarrow> []
            | Some cp \<Rightarrow>
                if \<bar>cp\<bar> \<ge> 3
                then [change_sentence pf ''Resting HR'' ''bpm'' cp (the (avg (stats sm Resting_hr)))]
                else [])
         @ (case change_pct (stats sm Hrv) of
              None \<Rightarrow> []
            | Some cp \<Rightarrow>
                if \<bar>cp\<bar> \<ge> 6
                then [change_sentence pf ''HRV'' ''ms'' cp (the (avg (stats sm Hrv)))]
                else [])
         @ (if anomalies sm \<noteq> [] then [''Anomalies: '' @ join ''; '' (anomalies sm)] else []))"
    unfolding insight_parts_def r h metric_part_compute_stats by simp
  have avg_r: "change_pct (stats sm Resting_hr) \<noteq> None \<longrightarrow> avg (stats sm Resting_hr) \<noteq> None"
    unfolding r using change_pct_needs_avg by blast
  have avg_h: "change_pct (stats sm Hrv) \<noteq> None \<longrightarrow> avg (stats sm Hrv) \<noteq> None"
    unfolding h using change_pct_needs_avg by blast
  have sentence: "change_sentence pf label unit cp av =
      label @ '' '' @ (if cp > 0 then ''increased'' else ''decreased'') @ '' by ''
        @ str_num pf (round1 pf cp) @ ''% (avg '' @ str_num pf (round1 pf av) @ '' '' @ unit @ '').''"
    for label unit cp av
    by (simp add: change_sentence_def direction_def)
  show ?thesis
    unfolding Let_def sm_def [symmetric] deterministic_insight_def parts
    using avg_r avg_h
    by (simp add: sentence no_notable_changes_def split: option.splits)
qed

lemma demo_insight:
  "deterministic_insight std_platform (compute_summary std_platform demo_db 738892 3) =
     Inr (''Resting HR increased by 6.5% (avg 64.0 bpm). HRV decreased by -16.7% (avg 38.5 ms). ''
          @ ''Anomalies: 2024-01-05: high temp 38.2'' @ [CHR 0xC2, CHR 0xB0] @ ''C; ''
          @ ''2024-01-05: low SpO'' @ [CHR 0xE2, CHR 0x82, CHR 0x82] @ '' 90.0%'')"
  by code_simp

lemma demo_insight_empty:
  "deterministic_insight std_platform (compute_summary std_platform [] 738892 7) =
     Inr ''No notable changes detected in the last period.''"
  by code_simp

lemma demo_change_pct_rhr:
  "change_pct (stats (compute_summary std_platform demo_db 738892 3) Resting_hr) = Some (200 / 31)"
  by code_simp

text \<open>The narrative of the example store: both sentences and the anomalies.\<close>

theorem C6_narrative_witness:
  "change_pct (stats (compute_summary std_platform demo_db 738892 3) Resting_hr) \<noteq> None
   \<and> avg (stats (compute_summary std_platform demo_db 738892 3) Resting_hr) \<noteq> None
   \<and> deterministic_insight std_platform (compute_summary std_platform demo_db 738892 3) =
     Inr (''Resting HR increased by 6.5% (avg 64.0 bpm). HRV decreased by -16.7% (avg 38.5 ms). ''
          @ ''Anomalies: 2024-01-05: high temp 38.2'' @ [CHR 0xC2, CHR 0xB0] @ ''C; ''
          @ ''2024-01-05: low SpO'' @ [CHR 0xE2, CHR 0x82, CHR 0x82] @ '' 90.0%'')"
proof -
  have cp: "change_pct (stats (compute_summary std_platform demo_db 738892 3) Resting_hr) \<noteq> None"
    by (simp add: demo_change_pct_rhr)
  from C6_narrative [of std_platform demo_db 738892 3]
  have "change_pct (stats (compute_summary std_platform demo_db 738892 3) Resting_hr) \<noteq> None
        \<longrightarrow> avg (stats (compute_summary std_platform demo_db 738892 3) Resting_hr) \<noteq> None"
    unfolding Let_def by blast
  with cp demo_insight show ?thesis by blast
qed

subsection \<open>Listing measurements\<close>

text \<open>With no \<open>since\<close> the handler takes its last branch, whatever \<open>until\<close> is.\<close>

lemma list_until_only: "list_measurements pf db None until = Inr (select_all db)"
  by (simp add: list_measurements_def is_given_def)

lemma demo_select_all: "map row_id (select_all demo_db) = [1, 4, 2, 3, 5]"
  by code_simp

lemma demo_list_spec_until:
  "map row_id (list_spec std_platform demo_db None (Some ''2024-01-05'')) = [1, 4, 2]"
  by code_simp

text \<open>
  C7. The list operation is to return exactly the records dated within
  \<open>[since, until]\<close>, a missing bound imposing no constraint. With only \<open>until\<close>
  given the handler returns every record: on the example store and
  \<open>until = 2024-01-05\<close> it answers with all five records, where the records
  dated up to that day are the three of 2024-01-05.
\<close>

theorem C7_until_only_ignored:
  "list_measurements std_platform demo_db None (Some ''2024-01-05'') = Inr (select_all demo_db)
   \<and> map row_id (select_all demo_db) = [1, 4, 2, 3, 5]
   \<and> map row_id (list_spec std_platform demo_db None (Some ''2024-01-05'')) = [1, 4, 2]"
  by (simp only: list_until_only demo_select_all demo_list_spec_until)

text \<open>When \<open>since\<close> is given the handler and the specification agree.\<close>

lemma list_since_agrees:
  assumes "is_given (Some lo)" and "until = None \<or> is_given until"
  shows "list_measurements pf db (Some lo) until = Inr (list_spec pf db (Some lo) until)"
proof (cases until)
  case None
  have "within_bounds pf (Some lo) None =
          (\<lambda>r. case sql_date pf (measured_at r) of None \<Rightarrow> False | Some d \<Rightarrow> lo \<le> d)"
    by (rule ext) (simp add: within_bounds_def)
  with None assms(1) show ?thesis
    by (simp add: list_measurements_def is_given_def list_spec_def select_since_def)
next
  case (Some hi)
  have "within_bounds pf (Some lo) (Some hi) =
          (\<lambda>r. case sql_date pf (measured_at r) of None \<Rightarrow> False | Some d \<Rightarrow> lo \<le> d \<and> d \<le> hi)"
    by (rule ext) (simp add: within_bounds_def split: option.splits)
  with Some assms show ?thesis
    by (simp add: list_measurements_def list_spec_def select_between_def)
qed

lemma demo_list_garbage_until:
  "map_sum id (map row_id) (list_measurements std_platform demo_db (Some ''2024-01-06'') (Some ''garbage''))
     = Inr [3, 5]"
  by code_simp

lemma demo_list_garbage_since:
  "list_measurements std_platform demo_db (Some ''not-a-date'') None = Inr []"
  by code_simp

lemma list_measurements_answers: "\<exists>rows. list_measurements pf db since until = Inr rows"
  by (simp add: list_measurements_def)

text \<open>
  C8. A list request whose \<open>since\<close> or \<open>until\<close> is not a well-formed calendar date
  is to be rejected with a validation error. The handler passes both texts to the
  query as they are: for \<open>since = not-a-date\<close> it answers successfully with the
  empty list, for \<open>until = garbage\<close> with the records from \<open>since\<close> on, and no
  request at all is rejected.
\<close>

theorem C8_malformed_filter_not_rejected:
  "list_measurements std_platform demo_db (Some ''not-a-date'') None = Inr []
   \<and> map_sum id (map row_id)
        (list_measurements std_platform demo_db (Some ''2024-01-06'') (Some ''garbage'')) = Inr [3, 5]
   \<and> (\<exists>rows. list_measurements pf db since until = Inr rows)"
  using demo_list_garbage_since demo_list_garbage_until list_measurements_answers by blast

subsection \<open>Coercion of the payload\<close>

text \<open>
  C3. An unparseable numeric field is to be stored as absent and never to fail the
  insert. For the payload with \<open>hrv = "abc"\<close> the handler ends with the
  \<open>ValueError\<close> of \<open>float\<close>; the same text in \<open>resting_hr\<close> is caught and
  gives the absent value.
\<close>

theorem C3_float_coercion_raises:
  "create_measurement ''2024-01-07T10:00:00'' [''hrv'' \<mapsto> JStr ''abc''] = Inl ValueError
   \<and> coerce_resting_hr [''resting_hr'' \<mapsto> JStr ''abc''] = None"
  by code_simp

text \<open>Digits are none of the other characters the parsers look for.\<close>

lemma is_digit_not_other:
  assumes "is_digit c"
  shows "\<not> is_space c" "c \<noteq> CHR ''.''" "c \<noteq> CHR ''-''" "c \<noteq> CHR ''+''" "c \<noteq> CHR ''_''"
    "\<not> is_exp_mark c" "c \<noteq> CHR ''n''" "c \<noteq> CHR ''i''" "\<not> (CHR ''A'' \<le> c \<and> c \<le> CHR ''Z'')"
  using assms by (auto simp: is_digit_def is_space_def is_exp_mark_def less_eq_char_def)

lemma digits_text_digit_part: "digits_text s \<Longrightarrow> digit_part s"
proof (induction s rule: digit_part.induct)
  case 1
  then show ?case by (simp add: digits_text_def)
next
  case (2 c)
  then show ?case by (simp add: digits_text_def)
next
  case (3 c d cs)
  then show ?case by (auto simp: digits_text_def is_digit_not_other)
qed

lemma digit_part_chars: "digit_part s \<Longrightarrow> c \<in> set s \<Longrightarrow> is_digit c \<or> c = CHR ''_''"
  by (induction s rule: digit_part.induct) (auto split: if_splits)

lemma strip_id:
  assumes "s \<noteq> []" "\<not> is_space (hd s)" "\<not> is_space (last s)"
  shows "strip s = s"
proof -
  have "dropWhile is_space s = s" using assms by (simp add: dropWhile_eq_self_iff)
  moreover have "dropWhile is_space (rev s) = rev s"
    using assms by (simp add: dropWhile_eq_self_iff hd_rev)
  ultimately show ?thesis by (simp add: strip_def)
qed

lemma split_sign_none:
  "s \<noteq> [] \<Longrightarrow> hd s \<noteq> CHR ''-'' \<Longrightarrow> hd s \<noteq> CHR ''+'' \<Longrightarrow> split_sign s = (False, s)"
  by (cases s) (simp_all add: split_sign_def)

lemma lower_digit_head:
  assumes "s \<noteq> []" "is_digit (hd s)"
  shows "lower s \<noteq> ''inf''" "lower s \<noteq> ''infinity''" "lower s \<noteq> ''nan''"
  using assms is_digit_not_other [of "hd s"] by (cases s; auto simp: lower_def)+

lemma digits_text_props:
  assumes "digits_text s"
  shows "s \<noteq> []" "is_digit (hd s)" "is_digit (last s)" "\<And>c. c \<in> set s \<Longrightarrow> is_digit c"
    "filter is_digit s = s"
  using assms by (auto simp: digits_text_def list_all_iff)

lemma length_digits_of: "digits_text s \<Longrightarrow> length (digits_of s) = length s"
  by (simp add: digits_of_def digits_text_props)

lemma dec_value_Nil: "dec_value [] = 0"
  by (simp add: dec_value_def digits_of_def)

text \<open>A decimal text: digits, a point, digits.\<close>

lemma decimal_not_digit_part: "\<not> digit_part (ip @ ''.'' @ fp)"
proof
  assume "digit_part (ip @ ''.'' @ fp)"
  then have "is_digit CHR ''.'' \<or> CHR ''.'' = CHR ''_''"
    by (rule digit_part_chars) simp
  then show False by (simp add: is_digit_def)
qed

lemma decimal_text_plain:
  assumes "digits_text ip" "digits_text fp"
  shows "split_sign (strip (ip @ ''.'' @ fp)) = (False, ip @ ''.'' @ fp)"
proof -
  let ?s = "ip @ ''.'' @ fp"
  have hd: "hd ?s = hd ip" using digits_text_props(1) [OF assms(1)] by simp
  have lst: "last ?s = last fp" using digits_text_props(1) [OF assms(2)] by simp
  have d1: "is_digit (hd ?s)" unfolding hd by (rule digits_text_props(2) [OF assms(1)])
  have d2: "is_digit (last ?s)" unfolding lst by (rule digits_text_props(3) [OF assms(2)])
  have "strip ?s = ?s"
    by (rule strip_id) (use d1 d2 is_digit_not_other in auto)
  moreover have "split_sign ?s = (False, ?s)"
    by (rule split_sign_none) (use d1 is_digit_not_other in auto)
  ultimately show ?thesis by simp
qed

lemma digits_text_plain:
  assumes "digits_text ip"
  shows "split_sign (strip ip) = (False, ip)"
proof -
  have "strip ip = ip"
    by (rule strip_id) (use digits_text_props [OF assms] is_digit_not_other in auto)
  moreover have "split_sign ip = (False, ip)"
    by (rule split_sign_none) (use digits_text_props [OF assms] is_digit_not_other in auto)
  ultimately show ?thesis by simp
qed

lemma py_int_str_decimal:
  assumes "digits_text ip" "digits_text fp"
  shows "py_int_str (ip @ ''.'' @ fp) = Inl ValueError"
  unfolding py_int_str_def decimal_text_plain [OF assms]
  using decimal_not_digit_part [of ip fp] by simp

lemma py_int_str_digits:
  assumes "digits_text ip"
  shows "py_int_str ip = Inr (int (dec_value ip))"
  unfolding py_int_str_def digits_text_plain [OF assms]
  using digits_text_digit_part [OF assms] by simp

lemma no_exp_mark:
  assumes "\<forall>c \<in> set s. \<not> is_exp_mark c"
  shows "takeWhile (\<lambda>c. \<not> is_exp_mark c) s = s" "dropWhile (\<lambda>c. \<not> is_exp_mark c) s = []"
  using assms by (simp_all add: takeWhile_eq_all_conv)

lemma split_mantissa_decimal:
  assumes "digits_text ip" "digits_text fp"
  shows "split_mantissa (ip @ ''.'' @ fp) = Some (ip, fp)"
proof -
  have nodot: "\<And>c. c \<in> set ip \<Longrightarrow> c \<noteq> CHR ''.''"
    using digits_text_props(4) [OF assms(1)] is_digit_not_other(2) by blast
  have tw: "takeWhile (\<lambda>c. c \<noteq> CHR ''.'') (ip @ ''.'' @ fp) = ip"
    using nodot by (simp add: takeWhile_append2)
  have dw: "dropWhile (\<lambda>c. c \<noteq> CHR ''.'') (ip @ ''.'' @ fp) = ''.'' @ fp"
    using nodot by (simp add: dropWhile_append2)
  show ?thesis
    unfolding split_mantissa_def Let_def tw dw
    using digits_text_digit_part [OF assms(1)] digits_text_digit_part [OF assms(2)]
      digits_text_props(1) [OF assms(1)]
    by simp
qed

lemma split_mantissa_digits:
  assumes "digits_text ip"
  shows "split_mantissa ip = Some (ip, [])"
proof -
  have nodot: "\<And>c. c \<in> set ip \<Longrightarrow> c \<noteq> CHR ''.''"
    using digits_text_props(4) [OF assms(1)] is_digit_not_other(2) by blast
  have tw: "takeWhile (\<lambda>c. c \<noteq> CHR ''.'') ip = ip"
    using nodot by (simp add: takeWhile_eq_all_conv)
  have dw: "dropWhile (\<lambda>c. c \<noteq> CHR ''.'') ip = []"
    using nodot by simp
  show ?thesis
    unfolding split_mantissa_def Let_def tw dw
    using digits_text_digit_part [OF assms] by simp
qed

lemma py_float_str_decimal:
  assumes "digits_text ip" "digits_text fp"
  shows "py_float_str (ip @ ''.'' @ fp) =
           Inr (Fin (real (dec_value ip) + real (dec_value fp) / 10 ^ length fp))"
proof -
  let ?s = "ip @ ''.'' @ fp"
  have ne: "?s \<noteq> []" by simp
  have hd: "is_digit (hd ?s)"
    using digits_text_props(1,2) [OF assms(1)] by simp
  have noexp: "\<forall>c \<in> set (ip @ CHR ''.'' # fp). \<not> is_exp_mark c"
    using digits_text_props(4) [OF assms(1)] digits_text_props(4) [OF assms(2)]
      is_digit_not_other(6) by (auto simp: is_exp_mark_def)
  have tw: "takeWhile (\<lambda>c. \<not> is_exp_mark c) (ip @ CHR ''.'' # fp) = ip @ CHR ''.'' # fp"
    and dw: "dropWhile (\<lambda>c. \<not> is_exp_mark c) (ip @ CHR ''.'' # fp) = []"
    by (rule no_exp_mark [OF noexp])+
  have sm: "split_mantissa (ip @ CHR ''.'' # fp) = Some (ip, fp)"
    using split_mantissa_decimal [OF assms] by simp
  have lw: "lower (ip @ CHR ''.'' # fp) \<noteq> ''inf''" "lower (ip @ CHR ''.'' # fp) \<noteq> ''infinity''"
    "lower (ip @ CHR ''.'' # fp) \<noteq> ''nan''"
    using lower_digit_head [OF ne hd] by simp_all
  show ?thesis
    unfolding py_float_str_def decimal_text_plain [OF assms]
    by (simp add: tw dw sm lw split_exponent_def length_digits_of [OF assms(2)])
qed

lemma py_float_str_digits:
  assumes "digits_text ip"
  shows "py_float_str ip = Inr (Fin (real (dec_value ip)))"
proof -
  have noexp: "\<forall>c \<in> set ip. \<not> is_exp_mark c"
    using digits_text_props(4) [OF assms] is_digit_not_other(6) by blast
  show ?thesis
    unfolding py_float_str_def digits_text_plain [OF assms]
    using lower_digit_head [OF digits_text_props(1,2) [OF assms]]
    by (simp add: no_exp_mark [OF noexp] split_mantissa_digits [OF assms] split_exponent_def
          dec_value_Nil digits_of_def)
qed

lemma digits_text_not_null:
  assumes "digits_text ip"
  shows "ip @ rest \<noteq> []" "ip @ rest \<noteq> ''null''"
proof -
  show ne: "ip @ rest \<noteq> []" using digits_text_props(1) [OF assms] by simp
  have "hd (ip @ rest) = hd ip" using digits_text_props(1) [OF assms] by simp
  then have "is_digit (hd (ip @ rest))" using digits_text_props(2) [OF assms] by simp
  then have "hd (ip @ rest) \<noteq> CHR ''n''" by (rule is_digit_not_other(7))
  then show "ip @ rest \<noteq> ''null''" by auto
qed

lemma n_field_decimal:
  assumes "digits_text ip" "digits_text fp"
  shows "n_field (data(key \<mapsto> JStr (ip @ ''.'' @ fp))) key =
           Inr (Some (Fin (real (dec_value ip) + real (dec_value fp) / 10 ^ length fp)))"
  using digits_text_not_null [OF assms(1), of "''.'' @ fp"] py_float_str_decimal [OF assms]
  by (simp add: n_field_def)

lemma n_field_digits:
  assumes "digits_text ip"
  shows "n_field (data(key \<mapsto> JStr ip)) key = Inr (Some (Fin (real (dec_value ip))))"
  using digits_text_not_null [OF assms, of "[]"] py_float_str_digits [OF assms]
  by (simp add: n_field_def)

lemma n_field_null: "n_field (data(key \<mapsto> JStr ''null'')) key = Inr None"
  by (simp add: n_field_def)

lemma n_field_missing: "data key = None \<Longrightarrow> n_field data key = Inr None"
  by (simp add: n_field_def)

lemma coerce_resting_hr_decimal:
  assumes "digits_text ip" "digits_text fp"
  shows "coerce_resting_hr (data(''resting_hr'' \<mapsto> JStr (ip @ ''.'' @ fp))) = None"
  using digits_text_not_null(1) [OF assms(1), of "''.'' @ fp"] py_int_str_decimal [OF assms]
  by (simp add: coerce_resting_hr_def)

lemma coerce_resting_hr_digits:
  assumes "digits_text ip"
  shows "coerce_resting_hr (data(''resting_hr'' \<mapsto> JStr ip)) = Some (int (dec_value ip))"
  using digits_text_not_null(1) [OF assms, of "[]"] py_int_str_digits [OF assms]
  by (simp add: coerce_resting_hr_def)

lemma coerce_resting_hr_int: "coerce_resting_hr (data(''resting_hr'' \<mapsto> JInt i)) = Some i"
  by (simp add: coerce_resting_hr_def)

lemma dec_value_snoc:
  "is_digit d \<Longrightarrow> dec_value (s @ [d]) = 10 * dec_value s + digit_val d"
  by (simp add: dec_value_def digits_of_def)

lemma digit_val_digits: "map digit_val ''0123456789'' = [0, 1, 2, 3, 4, 5, 6, 7, 8, 9]"
  by (simp add: digit_val_def)

lemma create_measurement_two_fields:
  assumes "n_field [''resting_hr'' \<mapsto> v, ''hrv'' \<mapsto> v] ''hrv'' = Inr h"
  shows "create_measurement now [''resting_hr'' \<mapsto> v, ''hrv'' \<mapsto> v] =
           Inr \<lparr>p_measured_at = JStr now,
                p_resting_hr = coerce_resting_hr [''resting_hr'' \<mapsto> v, ''hrv'' \<mapsto> v],
                p_hrv = h, p_respiratory_rate = None, p_body_temp = None, p_spo2 = None,
                p_notes = None\<rparr>"
  using assms by (simp add: create_measurement_def n_field_missing)

lemma coercion_examples_int:
  "py_int_str '' +4_2 '' = Inr 42"
  "py_int_str ''-7'' = Inr (- 7)"
  "py_int_str ''6e1'' = Inl ValueError"
  "py_int_str ''null'' = Inl ValueError"
  by code_simp+

lemma coercion_examples_float:
  "py_float_str '' -1_0.25e1 '' = Inr (Fin (- (205 / 2)))"
  "py_float_str ''6e1'' = Inr (Fin 60)"
  "py_float_str ''.5'' = Inr (Fin (1 / 2))"
  "py_float_str ''-Infinity'' = Inr NegInf"
  "py_float_str ''nAn'' = Inr NaN"
  by code_simp+

lemma coerce_resting_hr_examples:
  "coerce_resting_hr (data(''resting_hr'' \<mapsto> JStr '' +4_2 '')) = Some 42"
  "coerce_resting_hr (data(''resting_hr'' \<mapsto> JStr ''-7'')) = Some (- 7)"
  "coerce_resting_hr (data(''resting_hr'' \<mapsto> JStr ''6e1'')) = None"
  "coerce_resting_hr (data(''resting_hr'' \<mapsto> JStr ''null'')) = None"
  "coerce_resting_hr (data(''resting_hr'' \<mapsto> JFloat (Fin r))) = Some (if 0 \<le> r then \<lfloor>r\<rfloor> else \<lceil>r\<rceil>)"
  by (simp_all add: coerce_resting_hr_def coercion_examples_int)

lemma n_field_examples:
  "n_field (data(key \<mapsto> JStr '' -1_0.25e1 '')) key = Inr (Some (Fin (- (205 / 2))))"
  "n_field (data(key \<mapsto> JStr ''6e1'')) key = Inr (Some (Fin 60))"
  "n_field (data(key \<mapsto> JStr ''.5'')) key = Inr (Some (Fin (1 / 2)))"
  "n_field (data(key \<mapsto> JStr ''-Infinity'')) key = Inr (Some NegInf)"
  "n_field (data(key \<mapsto> JStr ''nAn'')) key = Inr (Some NaN)"
  "n_field (data(key \<mapsto> JInt 60)) key = Inr (Some (Fin 60))"
  "n_field (data(key \<mapsto> JFloat f)) key = Inr (Some f)"
  by (simp_all add: n_field_def coercion_examples_float)

text \<open>
  C10. \<open>resting_hr\<close> is coerced as an integer, the other numeric fields as reals.
  For every decimal text, digits, a point and digits, such as \<open>"60.5"\<close>: given for
  both \<open>resting_hr\<close> and \<open>hrv\<close> it is bound as an absent heart rate and as its
  number for \<open>hrv\<close>. A text of digits only is bound as its integer for
  \<open>resting_hr\<close> and as the same number for a real-valued field; a JSON integer is
  bound as it is. The text \<open>"null"\<close> in a real-valued field gives the absent value
  without being parsed. The value of a digit text is its decimal reading, and the
  further forms of Python's \<open>int\<close> and \<open>float\<close> (blanks, sign, grouping, exponent,
  \<open>inf\<close> and \<open>nan\<close>, a JSON float cut to its whole part) are coerced as listed.
\<close>

theorem C10_integer_and_real_coercion:
  assumes "digits_text ip" and "digits_text fp"
  shows
  "create_measurement now
     [''resting_hr'' \<mapsto> JStr (ip @ ''.'' @ fp), ''hrv'' \<mapsto> JStr (ip @ ''.'' @ fp)] =
     Inr \<lparr>p_measured_at = JStr now, p_resting_hr = None,
          p_hrv = Some (Fin (real (dec_value ip) + real (dec_value fp) / 10 ^ length fp)),
          p_respiratory_rate = None, p_body_temp = None, p_spo2 = None, p_notes = None\<rparr>
   \<and> create_measurement now [''resting_hr'' \<mapsto> JStr ip, ''hrv'' \<mapsto> JStr ip] =
     Inr \<lparr>p_measured_at = JStr now, p_resting_hr = Some (int (dec_value ip)),
          p_hrv = Some (Fin (real (dec_value ip))),
          p_respiratory_rate = None, p_body_temp = None, p_spo2 = None, p_notes = None\<rparr>
   \<and> coerce_resting_hr (data(''resting_hr'' \<mapsto> JStr (ip @ ''.'' @ fp))) = None
   \<and> coerce_resting_hr (data(''resting_hr'' \<mapsto> JStr ip)) = Some (int (dec_value ip))
   \<and> coerce_resting_hr (data(''resting_hr'' \<mapsto> JInt i)) = Some i
   \<and> n_field (data(key \<mapsto> JStr (ip @ ''.'' @ fp))) key =
       Inr (Some (Fin (real (dec_value ip) + real (dec_value fp) / 10 ^ length fp)))
   \<and> n_field (data(key \<mapsto> JStr ip)) key = Inr (Some (Fin (real (dec_value ip))))
   \<and> n_field (data(key \<mapsto> JStr ''null'')) key = Inr None
   \<and> create_measurement now [''hrv'' \<mapsto> JStr ''null'', ''respiratory_rate'' \<mapsto> JStr ''null'',
        ''body_temp'' \<mapsto> JStr ''null'', ''spo2'' \<mapsto> JStr ''null''] =
     Inr \<lparr>p_measured_at = JStr now, p_resting_hr = None, p_hrv = None,
          p_respiratory_rate = None, p_body_temp = None, p_spo2 = None, p_notes = None\<rparr>
   \<and> dec_value [] = 0
   \<and> (is_digit d \<longrightarrow> dec_value (s @ [d]) = 10 * dec_value s + digit_val d)
   \<and> map digit_val ''0123456789'' = [0, 1, 2, 3, 4, 5, 6, 7, 8, 9]
   \<and> coerce_resting_hr (data(''resting_hr'' \<mapsto> JStr '' +4_2 '')) = Some 42
   \<and> coerce_resting_hr (data(''resting_hr'' \<mapsto> JStr ''-7'')) = Some (- 7)
   \<and> coerce_resting_hr (data(''resting_hr'' \<mapsto> JStr ''6e1'')) = None
   \<and> coerce_resting_hr (data(''resting_hr'' \<mapsto> JStr ''null'')) = None
   \<and> coerce_resting_hr (data(''resting_hr'' \<mapsto> JFloat (Fin r))) =
       Some (if 0 \<le> r then \<lfloor>r\<rfloor> else \<lceil>r\<rceil>)
   \<and> n_field (data(key \<mapsto> JStr '' -1_0.25e1 '')) key = Inr (Some (Fin (- (205 / 2))))
   \<and> n_field (data(key \<mapsto> JStr ''6e1'')) key = Inr (Some (Fin 60))
   \<and> n_field (data(key \<mapsto> JStr ''.5'')) key = Inr (Some (Fin (1 / 2)))
   \<and> n_field (data(key \<mapsto> JStr ''-Infinity'')) key = Inr (Some NegInf)
   \<and> n_field (data(key \<mapsto> JStr ''nAn'')) key = Inr (Some NaN)
   \<and> n_field (data(key \<mapsto> JInt 60)) key = Inr (Some (Fin 60))
   \<and> n_field (data(key \<mapsto> JFloat f)) key = Inr (Some f)"
proof -
  let ?dec = "JStr (ip @ ''.'' @ fp)"
  have h1: "n_field [''resting_hr'' \<mapsto> ?dec, ''hrv'' \<mapsto> ?dec] ''hrv'' =
              Inr (Some (Fin (real (dec_value ip) + real (dec_value fp) / 10 ^ length fp)))"
    by (rule n_field_decimal [OF assms])
  have r1: "coerce_resting_hr [''resting_hr'' \<mapsto> ?dec, ''hrv'' \<mapsto> ?dec] = None"
    using coerce_resting_hr_decimal [OF assms, of "[''hrv'' \<mapsto> ?dec]"]
    by (simp add: fun_upd_twist)
  have h2: "n_field [''resting_hr'' \<mapsto> JStr ip, ''hrv'' \<mapsto> JStr ip] ''hrv'' =
              Inr (Some (Fin (real (dec_value ip))))"
    by (rule n_field_digits [OF assms(1)])
  have r2: "coerce_resting_hr [''resting_hr'' \<mapsto> JStr ip, ''hrv'' \<mapsto> JStr ip] =
              Some (int (dec_value ip))"
    using coerce_resting_hr_digits [OF assms(1), of "[''hrv'' \<mapsto> JStr ip]"]
    by (simp add: fun_upd_twist)
  have c1: "create_measurement now [''resting_hr'' \<mapsto> ?dec, ''hrv'' \<mapsto> ?dec] =
     Inr \<lparr>p_measured_at = JStr now, p_resting_hr = None,
          p_hrv = Some (Fin (real (dec_value ip) + real (dec_value fp) / 10 ^ length fp)),
          p_respiratory_rate = None, p_body_temp = None, p_spo2 = None, p_notes = None\<rparr>"
    unfolding create_measurement_two_fields [OF h1] r1 by simp
  have c2: "create_measurement now [''resting_hr'' \<mapsto> JStr ip, ''hrv'' \<mapsto> JStr ip] =
     Inr \<lparr>p_measured_at = JStr now, p_resting_hr = Some (int (dec_value ip)),
          p_hrv = Some (Fin (real (dec_value ip))),
          p_respiratory_rate = None, p_body_temp = None, p_spo2 = None, p_notes = None\<rparr>"
    unfolding create_measurement_two_fields [OF h2] r2 by simp
  have c3: "create_measurement now [''hrv'' \<mapsto> JStr ''null'', ''respiratory_rate'' \<mapsto> JStr ''null'',
        ''body_temp'' \<mapsto> JStr ''null'', ''spo2'' \<mapsto> JStr ''null''] =
     Inr \<lparr>p_measured_at = JStr now, p_resting_hr = None, p_hrv = None,
          p_respiratory_rate = None, p_body_temp = None, p_spo2 = None, p_notes = None\<rparr>"
    by (simp add: create_measurement_def coerce_resting_hr_def n_field_def)
  note facts = c1 c2 c3 coerce_resting_hr_decimal [OF assms] coerce_resting_hr_digits [OF assms(1)]
      coerce_resting_hr_int n_field_decimal [OF assms] n_field_digits [OF assms(1)] n_field_null
      dec_value_Nil digit_val_digits coerce_resting_hr_examples n_field_examples
  show ?thesis
    by (intro conjI impI; (rule facts | erule dec_value_snoc))
qed

lemma demo_dec_values: "dec_value ''60'' = 60" "dec_value ''5'' = 5" "dec_value ''72'' = 72" "dec_value ''25'' = 25"
  by code_simp+

theorem C10_integer_and_real_coercion_witness:
  "digits_text ''60'' \<and> digits_text ''5''
   \<and> create_measurement ''2024-01-07T10:00:00''
        [''resting_hr'' \<mapsto> JStr ''60.5'', ''hrv'' \<mapsto> JStr ''60.5''] =
      Inr \<lparr>p_measured_at = JStr ''2024-01-07T10:00:00'', p_resting_hr = None,
           p_hrv = Some (Fin (121 / 2)),
           p_respiratory_rate = None, p_body_temp = None, p_spo2 = None, p_notes = None\<rparr>
   \<and> create_measurement ''2024-01-07T10:00:00''
        [''resting_hr'' \<mapsto> JStr ''60'', ''hrv'' \<mapsto> JStr ''60''] =
      Inr \<lparr>p_measured_at = JStr ''2024-01-07T10:00:00'', p_resting_hr = Some 60,
           p_hrv = Some (Fin 60),
           p_respiratory_rate = None, p_body_temp = None, p_spo2 = None, p_notes = None\<rparr>
   \<and> is_digit CHR ''5'' \<and> dec_value ''605'' = 605"
proof -
  have d: "digits_text ''60''" "digits_text ''5''"
    by (simp_all add: digits_text_def is_digit_def)
  have five: "is_digit CHR ''5''" by (simp add: is_digit_def)
  have v: "digit_val CHR ''5'' = 5" by (simp add: digit_val_def)
  from C10_integer_and_real_coercion [OF d, of "''2024-01-07T10:00:00''" _ _ _ "CHR ''5''" "''60''"]
  show ?thesis
    using d five by (simp add: demo_dec_values v)
qed

end
